theory Spec2Isabelle
  imports Main
begin

section \<open>JavaScript values and exceptions\<close>

text \<open>
  The claims of a verified token are data that arrives from outside (the decoded JSON
  payload, cast to \<^verbatim>\<open>JwtPayload\<close> without a run-time check), so they are modelled as
  dynamically typed values. Numbers are the integer-valued ones; strings are lists of
  characters, each standing for one code unit below 256.
\<close>

datatype jsval =
    JUndefined
  | JNull
  | JBool bool
  | JNum int
  | JStr string
  | JArr "jsval list"
  | JObj "(string \<times> jsval) list"

text \<open>
  Exceptions carry their class and their message. In the jsonwebtoken library
  \<^verbatim>\<open>TokenExpiredError\<close> and \<^verbatim>\<open>NotBeforeError\<close> are subclasses of
  \<^verbatim>\<open>JsonWebTokenError\<close>; \<^verbatim>\<open>TypeError\<close> and \<^verbatim>\<open>Error\<close> are not.
\<close>

datatype js_error =
    TokenExpiredError string
  | NotBeforeError string
  | JsonWebTokenError string
  | TypeError string
  | Error string

fun message :: "js_error \<Rightarrow> string" where
  "message (TokenExpiredError m) = m"
| "message (NotBeforeError m) = m"
| "message (JsonWebTokenError m) = m"
| "message (TypeError m) = m"
| "message (Error m) = m"

fun instanceof_TokenExpiredError :: "js_error \<Rightarrow> bool" where
  "instanceof_TokenExpiredError (TokenExpiredError m) = True"
| "instanceof_TokenExpiredError e = False"

fun instanceof_NotBeforeError :: "js_error \<Rightarrow> bool" where
  "instanceof_NotBeforeError (NotBeforeError m) = True"
| "instanceof_NotBeforeError e = False"

fun instanceof_JsonWebTokenError :: "js_error \<Rightarrow> bool" where
  "instanceof_JsonWebTokenError (TokenExpiredError m) = True"
| "instanceof_JsonWebTokenError (NotBeforeError m) = True"
| "instanceof_JsonWebTokenError (JsonWebTokenError m) = True"
| "instanceof_JsonWebTokenError e = False"

text \<open>Truthiness, as \<^verbatim>\<open>!x\<close> and \<^verbatim>\<open>x && y\<close> read it.\<close>

fun truthy :: "jsval \<Rightarrow> bool" where
  "truthy JUndefined = False"
| "truthy JNull = False"
| "truthy (JBool b) = b"
| "truthy (JNum n) = (n \<noteq> 0)"
| "truthy (JStr s) = (s \<noteq> [])"
| "truthy (JArr xs) = True"
| "truthy (JObj kvs) = True"

text \<open>A value of type \<^verbatim>\<open>string | undefined\<close>.\<close>

fun opt_to_js :: "string option \<Rightarrow> jsval" where
  "opt_to_js None = JUndefined"
| "opt_to_js (Some s) = JStr s"

text \<open>Reading a property of an object parsed from JSON; a missing one is \<^verbatim>\<open>undefined\<close>.\<close>

definition js_prop :: "(string \<times> jsval) list \<Rightarrow> string \<Rightarrow> jsval" where
  "js_prop obj k = (case map_of obj k of None \<Rightarrow> JUndefined | Some v \<Rightarrow> v)"

fun isArray :: "jsval \<Rightarrow> bool" where
  "isArray (JArr xs) = True"
| "isArray v = False"

text \<open>The \<^verbatim>\<open>length\<close> property: arrays and strings have one.\<close>

fun js_length :: "jsval \<Rightarrow> jsval" where
  "js_length (JArr xs) = JNum (int (length xs))"
| "js_length (JStr s) = JNum (int (length s))"
| "js_length v = JUndefined"

text \<open>
  Decimal digits of a number, as \<^verbatim>\<open>String(n)\<close> prints an integer that a double holds
  exactly and that is below \<open>10\<^sup>2\<^sup>1\<close> in size; larger and fractional numbers are
  outside the model, and no statement below depends on the digits of a number.
\<close>

definition digit_char :: "nat \<Rightarrow> char" where
  "digit_char d = ''0123456789'' ! d"

function dec_nat :: "nat \<Rightarrow> string" where
  "dec_nat n = (if n < 10 then [digit_char n] else dec_nat (n div 10) @ [digit_char (n mod 10)])"
  by pat_completeness auto
termination
  by (relation "measure (\<lambda>n. n)") auto

declare dec_nat.simps [simp del]

definition dec_int :: "int \<Rightarrow> string" where
  "dec_int i = (if i < 0 then CHR ''-'' # dec_nat (nat (- i)) else dec_nat (nat i))"

text \<open>
  \<^verbatim>\<open>Array.prototype.join(',')\<close> and the conversion to string it applies to each element:
  \<^verbatim>\<open>undefined\<close> and \<^verbatim>\<open>null\<close> elements give the empty string, a nested array is joined
  in turn, an object gives \<^verbatim>\<open>[object Object]\<close> unless it has a property of its own
  named \<^verbatim>\<open>toString\<close>: a JSON value is never callable, \<^verbatim>\<open>Object.prototype.valueOf\<close>
  returns the object itself, and the conversion raises \<^verbatim>\<open>TypeError\<close>.
\<close>

fun js_toString :: "jsval \<Rightarrow> js_error + string"
  and js_join :: "jsval list \<Rightarrow> js_error + string" where
  "js_toString JUndefined = Inr ''undefined''"
| "js_toString JNull = Inr ''null''"
| "js_toString (JBool b) = Inr (if b then ''true'' else ''false'')"
| "js_toString (JNum n) = Inr (dec_int n)"
| "js_toString (JStr s) = Inr s"
| "js_toString (JArr xs) = js_join xs"
| "js_toString (JObj kvs) =
     (if map_of kvs ''toString'' \<noteq> None
      then Inl (TypeError ''Cannot convert object to primitive value'')
      else Inr ''[object Object]'')"
| "js_join [] = Inr ''''"
| "js_join (x # xs) =
     (case (if x = JUndefined \<or> x = JNull then Inr '''' else js_toString x) of
        Inl e \<Rightarrow> Inl e
      | Inr s \<Rightarrow>
          (if xs = [] then Inr s
           else (case js_join xs of
                   Inl e \<Rightarrow> Inl e
                 | Inr t \<Rightarrow> Inr (s @ '','' @ t))))"

text \<open>
  Calling \<^verbatim>\<open>v.join(',')\<close> on a value: only an array has the method. The first argument
  is the text of the expression, which the message of the error carries.
\<close>

fun join_comma :: "string \<Rightarrow> jsval \<Rightarrow> js_error + string" where
  "join_comma name (JArr xs) = js_join xs"
| "join_comma name v = Inl (TypeError (name @ ''.join is not a function''))"

section \<open>Configuration, environment and state\<close>

text \<open>
  \<^verbatim>\<open>src/config/index.ts\<close>: the values read from the process environment when the module
  is loaded. \<^verbatim>\<open>NODE_ENV\<close> and \<^verbatim>\<open>LOCAL_JWT_SECRET\<close> may be unset; the others have
  defaults, so they are always present. The cache expiry is the integer \<^verbatim>\<open>parseInt\<close>
  reads; a setting that is not a number is outside the model.
\<close>

record config =
  NODE_ENV :: "string option"
  jwt_secretName :: string
  jwt_issuer :: string
  jwt_audience :: string
  jwt_algorithm :: string
  jwt_localSecret :: "string option"
  cacheExpiryMs :: int

text \<open>The options object handed to \<^verbatim>\<open>jwt.verify\<close>.\<close>

record verify_options =
  algorithms :: "string list"
  issuer :: string
  audience :: string

text \<open>
  What lies outside the repository, as one invocation meets it: the clock read by
  \<^verbatim>\<open>Date.now()\<close>, the answer of the secret store to \<^verbatim>\<open>getSecretValue\<close> (an exception,
  or a response whose \<^verbatim>\<open>SecretString\<close> may be missing), the outcome of the library call
  \<^verbatim>\<open>jwt.verify(token, secret, options)\<close> (an exception, or the decoded payload: with an
  expected issuer configured the library returns objects only), and the text that
  \<^verbatim>\<open>new Date().toISOString()\<close> gives.
\<close>

record env =
  date_now :: int
  getSecretValue :: "string \<Rightarrow> js_error + string option"
  jwt_verify :: "string \<Rightarrow> string \<Rightarrow> verify_options \<Rightarrow> js_error + (string \<times> jsval) list"
  date_toISOString :: string

text \<open>One entry of \<^verbatim>\<open>secretsCache\<close>: \<^verbatim>\<open>{ value, timestamp }\<close>.\<close>

record cache_entry =
  cache_value :: string
  timestamp :: int

text \<open>
  The state of the process: the module-level \<^verbatim>\<open>secretsCache\<close>, and the list of the
  calls made to the secret store so far (the names asked for, oldest first), kept to
  count the fetches.
\<close>

record state =
  secretsCache :: "string \<rightharpoonup> cache_entry"
  store_calls :: "string list"

definition initial_state :: state where
  "initial_state = \<lparr>secretsCache = Map.empty, store_calls = []\<rparr>"

section \<open>The secrets manager service (\<^verbatim>\<open>src/services/secretsManager.ts\<close>)\<close>

text \<open>The flag \<^verbatim>\<open>useLocalSecrets\<close> set by the constructor.\<close>

definition useLocalSecrets :: "config \<Rightarrow> bool" where
  "useLocalSecrets cfg =
     (NODE_ENV cfg \<noteq> Some ''production'' \<and> truthy (opt_to_js (jwt_localSecret cfg)))"

text \<open>The \<^verbatim>\<open>try\<close> block of \<^verbatim>\<open>getSecret\<close>: one call to the store, then the cache update.\<close>

definition fetchSecret :: "config \<Rightarrow> env \<Rightarrow> state \<Rightarrow> string \<Rightarrow> (js_error + string) \<times> state" where
  "fetchSecret cfg e s secretName =
     (let now = date_now e;
          s1 = s\<lparr>store_calls := store_calls s @ [secretName]\<rparr>
      in case getSecretValue e secretName of
           Inl err \<Rightarrow> (Inl err, s1)
         | Inr response \<Rightarrow>
             (if \<not> truthy (opt_to_js response)
              then (Inl (Error (''Secret '' @ secretName @ '' not found or has no value'')), s1)
              else (case response of
                      None \<Rightarrow> (Inl (Error (''Secret '' @ secretName @ '' not found or has no value'')), s1)
                    | Some secretString \<Rightarrow>
                        (Inr secretString,
                         s1\<lparr>secretsCache := (secretsCache s1)
                              (secretName \<mapsto> \<lparr>cache_value = secretString, timestamp = now\<rparr>)\<rparr>))))"

definition getSecret :: "config \<Rightarrow> env \<Rightarrow> state \<Rightarrow> string \<Rightarrow> (js_error + string) \<times> state" where
  "getSecret cfg e s secretName =
     (case (if useLocalSecrets cfg \<and> secretName = jwt_secretName cfg
               \<and> truthy (opt_to_js (jwt_localSecret cfg))
            then jwt_localSecret cfg else None) of
        Some localSecret \<Rightarrow> (Inr localSecret, s)
      | None \<Rightarrow>
          (let cachedSecret = secretsCache s secretName;
               now = date_now e
           in case cachedSecret of
                None \<Rightarrow> fetchSecret cfg e s secretName
              | Some c \<Rightarrow>
                  (if now - timestamp c < cacheExpiryMs cfg
                   then (Inr (cache_value c), s)
                   else fetchSecret cfg e s secretName)))"

definition getJwtSecret :: "config \<Rightarrow> env \<Rightarrow> state \<Rightarrow> (js_error + string) \<times> state" where
  "getJwtSecret cfg e s = getSecret cfg e s (jwt_secretName cfg)"

section \<open>The token validator service (\<^verbatim>\<open>src/services/tokenValidator.ts\<close>)\<close>

record TokenValidationResult =
  isValid :: bool
  userId :: "jsval option"
  roles :: "jsval option"
  scopes :: "jsval option"
  error :: "string option"

definition invalid :: "string \<Rightarrow> TokenValidationResult" where
  "invalid msg = \<lparr>isValid = False, userId = None, roles = None, scopes = None, error = Some msg\<rparr>"

text \<open>The checks on the decoded claims, lines 34 to 58.\<close>

definition validateClaims :: "(string \<times> jsval) list \<Rightarrow> string option \<Rightarrow> TokenValidationResult" where
  "validateClaims decoded sourceIp =
     (if \<not> truthy (js_prop decoded ''sub'')
      then invalid ''Missing subject (user ID) in token''
      else if \<not> truthy (js_prop decoded ''roles'') \<or> \<not> isArray (js_prop decoded ''roles'')
                \<or> js_length (js_prop decoded ''roles'') = JNum 0
      then invalid ''Missing or invalid roles in token''
      else if \<not> truthy (js_prop decoded ''scopes'') \<or> \<not> isArray (js_prop decoded ''scopes'')
                \<or> js_length (js_prop decoded ''scopes'') = JNum 0
      then invalid ''Missing or invalid scopes in token''
      else if truthy (js_prop decoded ''ip'') \<and> truthy (opt_to_js sourceIp)
                \<and> js_prop decoded ''ip'' \<noteq> opt_to_js sourceIp
      then invalid ''IP address mismatch''
      else \<lparr>isValid = True,
            userId = Some (js_prop decoded ''sub''),
            roles = Some (js_prop decoded ''roles''),
            scopes = Some (js_prop decoded ''scopes''),
            error = None\<rparr>)"

text \<open>The \<^verbatim>\<open>catch\<close> block, lines 59 to 70.\<close>

definition validateCatch :: "js_error \<Rightarrow> TokenValidationResult" where
  "validateCatch err =
     (if instanceof_TokenExpiredError err then invalid ''Token expired''
      else if instanceof_NotBeforeError err then invalid ''Token not yet valid''
      else if instanceof_JsonWebTokenError err then invalid (''Invalid token: '' @ message err)
      else invalid ''Error validating token'')"

definition verifyOptions :: "config \<Rightarrow> verify_options" where
  "verifyOptions cfg =
     \<lparr>algorithms = [jwt_algorithm cfg], issuer = jwt_issuer cfg, audience = jwt_audience cfg\<rparr>"

definition validateToken ::
  "config \<Rightarrow> env \<Rightarrow> state \<Rightarrow> string \<Rightarrow> string option \<Rightarrow> TokenValidationResult \<times> state" where
  "validateToken cfg e s token sourceIp =
     (case getJwtSecret cfg e s of
        (Inl err, s1) \<Rightarrow> (validateCatch err, s1)
      | (Inr secret, s1) \<Rightarrow>
          (case jwt_verify e token secret (verifyOptions cfg) of
             Inl err \<Rightarrow> (validateCatch err, s1)
           | Inr decoded \<Rightarrow> (validateClaims decoded sourceIp, s1)))"

section \<open>The policy generator (\<^verbatim>\<open>src/utils/policyGenerator.ts\<close>)\<close>

datatype effect = Allow | Deny

record statement =
  Action :: string
  Effect :: effect
  Resource :: string

record policy_document =
  Version :: string
  Statement :: "statement list"

text \<open>
  The authorizer result. The principal is whatever the caller passes (the handler passes
  the subject claim of the token); the context (\<open>context'\<close>, since the
  plain name is reserved) is absent, or an object given with its keys in the order of
  the source.
\<close>

record decision =
  principalId :: jsval
  policyDocument :: policy_document
  context' :: "(string \<times> jsval) list option"

definition generatePolicy ::
  "jsval \<Rightarrow> effect \<Rightarrow> string \<Rightarrow> (string \<times> jsval) list option \<Rightarrow> decision" where
  "generatePolicy pid eff resource ctx =
     \<lparr>principalId = pid,
      policyDocument =
        \<lparr>Version = ''2012-10-17'',
         Statement = [\<lparr>Action = ''execute-api:Invoke'', Effect = eff, Resource = resource\<rparr>]\<rparr>,
      context' = ctx\<rparr>"

text \<open>
  The fields of the context are evaluated in the order they are written, so a failing
  \<^verbatim>\<open>roles.join(',')\<close> is raised before \<^verbatim>\<open>scopes.join(',')\<close> is tried. The last argument
  is the text of \<^verbatim>\<open>new Date().toISOString()\<close>.
\<close>

definition generateAllowPolicy ::
  "jsval \<Rightarrow> string \<Rightarrow> jsval \<Rightarrow> jsval \<Rightarrow> string \<Rightarrow> js_error + decision" where
  "generateAllowPolicy uid resource rs ss stamp =
     (case join_comma ''roles'' rs of
        Inl err \<Rightarrow> Inl err
      | Inr joinedRoles \<Rightarrow>
          (case join_comma ''scopes'' ss of
             Inl err \<Rightarrow> Inl err
           | Inr joinedScopes \<Rightarrow>
               Inr (generatePolicy uid Allow resource
                      (Some [(''userId'', uid),
                             (''roles'', JStr joinedRoles),
                             (''scopes'', JStr joinedScopes),
                             (''userIdHeader'', uid),
                             (''authenticated'', JStr ''true''),
                             (''timestamp'', JStr stamp)]))))"

definition generateDenyPolicy :: "jsval \<Rightarrow> string \<Rightarrow> decision" where
  "generateDenyPolicy uid resource = generatePolicy uid Deny resource None"

text \<open>\<^verbatim>\<open>config.authorizer.denyAllPolicy\<close>, a constant of \<^verbatim>\<open>src/config/index.ts\<close>.\<close>

definition denyAllPolicy :: policy_document where
  "denyAllPolicy =
     \<lparr>Version = ''2012-10-17'',
      Statement = [\<lparr>Action = ''execute-api:Invoke'', Effect = Deny, Resource = ''*''\<rparr>]\<rparr>"

definition getDenyAllPolicy :: decision where
  "getDenyAllPolicy =
     \<lparr>principalId = JStr ''anonymous'', policyDocument = denyAllPolicy, context' = None\<rparr>"

section \<open>The handler (\<^verbatim>\<open>src/index.ts\<close>)\<close>

text \<open>
  The regular expression \<^verbatim>\<open>/^Bearer\s+(.*)$/i\<close>. Without the \<^verbatim>\<open>u\<close> flag, ignoring case
  compares the upper-case forms of the characters (taken here on their codes), and only
  the letters a to z have an upper-case form among the letters of \<^verbatim>\<open>Bearer\<close>.
  \<^verbatim>\<open>\s\<close> is white space and line terminators (here those with a code below 256);
  \<^verbatim>\<open>.\<close> is any character but a line terminator; \<^verbatim>\<open>$\<close> is the end of the
  input, since there is no \<^verbatim>\<open>m\<close> flag.
\<close>

definition upper_code :: "nat \<Rightarrow> nat" where
  "upper_code n = (if 97 \<le> n \<and> n \<le> 122 then n - 32 else n)"

definition ci_equal :: "string \<Rightarrow> string \<Rightarrow> bool" where
  "ci_equal a b = (map (\<lambda>c. upper_code (of_char c)) a = map (\<lambda>c. upper_code (of_char c)) b)"

definition is_whitespace :: "char \<Rightarrow> bool" where
  "is_whitespace c =
     (c \<in> set [CHR 0x09, CHR 0x0A, CHR 0x0B, CHR 0x0C, CHR 0x0D, CHR 0x20, CHR 0xA0])"

definition is_line_terminator :: "char \<Rightarrow> bool" where
  "is_line_terminator c = (c = CHR 0x0A \<or> c = CHR 0x0D)"

text \<open>
  The match and its first group. \<^verbatim>\<open>\s+\<close> is greedy, so it takes the whole run of white
  space after the prefix; giving some of it back would only lengthen what \<^verbatim>\<open>(.*)\<close> has
  to cover, so the match succeeds exactly when the rest after the run has no line
  terminator, and the group is that rest.
\<close>

definition bearer_match :: "string \<Rightarrow> string option" where
  "bearer_match h =
     (let rest = drop 6 h;
          grp = dropWhile is_whitespace rest
      in if ci_equal (take 6 h) ''Bearer'' \<and> takeWhile is_whitespace rest \<noteq> []
            \<and> \<not> list_ex is_line_terminator grp
         then Some grp else None)"

definition extractToken :: "string option \<Rightarrow> string option" where
  "extractToken authorizationHeader =
     (if \<not> truthy (opt_to_js authorizationHeader) then None
      else (case authorizationHeader of
              None \<Rightarrow> None
            | Some h \<Rightarrow> bearer_match h))"

record event =
  authorizationToken :: "string option"
  methodArn :: string

fun unwrap :: "jsval option \<Rightarrow> jsval" where
  "unwrap None = JUndefined"
| "unwrap (Some v) = v"

text \<open>The body of the \<^verbatim>\<open>try\<close> block: a decision, or the exception that leaves it.\<close>

definition handlerTry :: "config \<Rightarrow> env \<Rightarrow> state \<Rightarrow> event \<Rightarrow> (js_error + decision) \<times> state" where
  "handlerTry cfg e s ev =
     (let token = extractToken (authorizationToken ev)
      in if \<not> truthy (opt_to_js token) then (Inr getDenyAllPolicy, s)
         else (case token of
                 None \<Rightarrow> (Inr getDenyAllPolicy, s)
               | Some tok \<Rightarrow>
                   (let sourceIp = None;
                        (validationResult, s1) = validateToken cfg e s tok sourceIp
                    in if \<not> isValid validationResult
                       then (Inr (generateDenyPolicy (JStr ''anonymous'') (methodArn ev)), s1)
                       else (generateAllowPolicy
                               (unwrap (userId validationResult))
                               (methodArn ev)
                               (unwrap (roles validationResult))
                               (unwrap (scopes validationResult))
                               (date_toISOString e), s1))))"

text \<open>
  The \<^verbatim>\<open>try\<close> statement of the handler, lines 38 to 71: the \<^verbatim>\<open>catch\<close> block turns any
  exception into the deny-all decision.
\<close>

definition handler :: "config \<Rightarrow> env \<Rightarrow> state \<Rightarrow> event \<Rightarrow> decision \<times> state" where
  "handler cfg e s ev =
     (case handlerTry cfg e s ev of
        (Inl err, s1) \<Rightarrow> (getDenyAllPolicy, s1)
      | (Inr d, s1) \<Rightarrow> (d, s1))"

text \<open>
  Line 36, the one statement before the \<^verbatim>\<open>try\<close>: \<^verbatim>\<open>JSON.stringify(event, null, 2)\<close>, whose
  text is logged. A string is quoted as \<^verbatim>\<open>JSON.stringify\<close> quotes it: the quote, the
  backslash and the control characters are escaped. The event is printed with its
  \<^verbatim>\<open>type\<close>, always \<^verbatim>\<open>TOKEN\<close>, and with the keys in the order of the event written in
  \<^verbatim>\<open>index.ts\<close>; an undefined token is left out. \<^verbatim>\<open>JSON.stringify\<close> raises on a cyclic
  value and on a \<^verbatim>\<open>BigInt\<close> only, and an event of strings holds neither.
\<close>

definition hex_digit :: "nat \<Rightarrow> char" where
  "hex_digit d = ''0123456789abcdef'' ! d"

definition quote_char :: "char \<Rightarrow> string" where
  "quote_char c =
     (if c = CHR 0x08 then [CHR 0x5C, CHR ''b'']
      else if c = CHR 0x09 then [CHR 0x5C, CHR ''t'']
      else if c = CHR 0x0A then [CHR 0x5C, CHR ''n'']
      else if c = CHR 0x0C then [CHR 0x5C, CHR ''f'']
      else if c = CHR 0x0D then [CHR 0x5C, CHR ''r'']
      else if c = CHR 0x22 then [CHR 0x5C, CHR 0x22]
      else if c = CHR 0x5C then [CHR 0x5C, CHR 0x5C]
      else if (of_char c :: nat) < 32
      then [CHR 0x5C, CHR ''u'', CHR ''0'', CHR ''0'',
            hex_digit ((of_char c :: nat) div 16), hex_digit ((of_char c :: nat) mod 16)]
      else [c])"

definition quoteJSON :: "string \<Rightarrow> string" where
  "quoteJSON str = [CHR 0x22] @ concat (map quote_char str) @ [CHR 0x22]"

definition stringifyEvent :: "event \<Rightarrow> js_error + string" where
  "stringifyEvent ev =
     Inr (''{'' @ [CHR 0x0A]
          @ ''  '' @ quoteJSON ''type'' @ '': '' @ quoteJSON ''TOKEN'' @ '','' @ [CHR 0x0A]
          @ ''  '' @ quoteJSON ''methodArn'' @ '': '' @ quoteJSON (methodArn ev)
          @ (case authorizationToken ev of
               None \<Rightarrow> []
             | Some h \<Rightarrow>
                 '','' @ [CHR 0x0A] @ ''  '' @ quoteJSON ''authorizationToken'' @ '': '' @ quoteJSON h)
          @ [CHR 0x0A] @ ''}'')"

text \<open>
  The whole handler function: an exception of the statement before the \<^verbatim>\<open>try\<close> would
  leave it (the promise would reject); after that statement the result is the one of
  the \<^verbatim>\<open>try\<close> statement.
\<close>

definition handlerCall :: "config \<Rightarrow> env \<Rightarrow> state \<Rightarrow> event \<Rightarrow> (js_error + decision) \<times> state" where
  "handlerCall cfg e s ev =
     (case stringifyEvent ev of
        Inl err \<Rightarrow> (Inl err, s)
      | Inr logged \<Rightarrow> (case handler cfg e s ev of (d, s1) \<Rightarrow> (Inr d, s1)))"

section \<open>Notions used in the statements\<close>

text \<open>
  The remaining definitions are not part of the program: they name the conditions the
  properties below speak about.
\<close>


text \<open>A subject that is absent or empty; a roles or scopes claim that is absent, not an array, or empty.\<close>

definition absentOrEmptyString :: "jsval \<Rightarrow> bool" where
  "absentOrEmptyString v = (v = JUndefined \<or> v = JStr [])"

definition absentNotArrayOrEmpty :: "jsval \<Rightarrow> bool" where
  "absentNotArrayOrEmpty v = (v = JUndefined \<or> \<not> isArray v \<or> v = JArr [])"

fun isString :: "jsval \<Rightarrow> bool" where
  "isString (JStr str) = True"
| "isString v = False"

text \<open>
  A header matches the pattern \<^verbatim>\<open>Bearer <token>\<close> with group \<open>g\<close> when it is a prefix equal
  to \<^verbatim>\<open>Bearer\<close> up to case, then at least one white-space character, then \<open>g\<close>, and \<open>g\<close>
  has no line terminator. This is the regular expression read as a set of words, with
  no reference to the way a matcher searches.
\<close>

definition matchesBearerPattern :: "string \<Rightarrow> string \<Rightarrow> bool" where
  "matchesBearerPattern h g =
     (\<exists>p w. h = p @ w @ g \<and> ci_equal p ''Bearer'' \<and> w \<noteq> [] \<and> list_all is_whitespace w
        \<and> \<not> list_ex is_line_terminator g)"

text \<open>
  The three conditions of \<^verbatim>\<open>getSecret\<close>: the local secret stands in for the name asked
  for; the cache holds an entry for the name that has not expired; the store throws, or
  answers without a secret string.
\<close>

definition localBypass :: "config \<Rightarrow> string \<Rightarrow> bool" where
  "localBypass cfg name =
     (useLocalSecrets cfg \<and> name = jwt_secretName cfg \<and> truthy (opt_to_js (jwt_localSecret cfg)))"

definition cacheFresh :: "config \<Rightarrow> env \<Rightarrow> state \<Rightarrow> string \<Rightarrow> bool" where
  "cacheFresh cfg e s name =
     (case secretsCache s name of
        None \<Rightarrow> False
      | Some c \<Rightarrow> date_now e - timestamp c < cacheExpiryMs cfg)"

definition storeFails :: "env \<Rightarrow> string \<Rightarrow> bool" where
  "storeFails e name =
     (case getSecretValue e name of
        Inl err \<Rightarrow> True
      | Inr None \<Rightarrow> True
      | Inr (Some v) \<Rightarrow> v = [])"

text \<open>The exception that leaves \<^verbatim>\<open>getSecret\<close> when the store fails.\<close>

definition storeError :: "env \<Rightarrow> string \<Rightarrow> js_error" where
  "storeError e name =
     (case getSecretValue e name of
        Inl err \<Rightarrow> err
      | Inr response \<Rightarrow> Error (''Secret '' @ name @ '' not found or has no value''))"

text \<open>
  The states the process can be in: the cache is written by \<^verbatim>\<open>getSecret\<close> only, so a
  state is what a list of calls to \<^verbatim>\<open>getSecret\<close> (each with its environment and the name
  asked for) leaves, starting from the empty cache.
\<close>

fun afterCalls :: "config \<Rightarrow> (env \<times> string) list \<Rightarrow> state \<Rightarrow> state" where
  "afterCalls cfg [] s = s"
| "afterCalls cfg ((e, name) # cs) s = afterCalls cfg cs (snd (getSecret cfg e s name))"

text \<open>
  A value that \<^verbatim>\<open>join\<close> can convert to a string: anything but an object with a property of
  its own named \<^verbatim>\<open>toString\<close>, alone or inside nested arrays.
\<close>

fun convertible :: "jsval \<Rightarrow> bool"
  and all_convertible :: "jsval list \<Rightarrow> bool" where
  "convertible (JArr xs) = all_convertible xs"
| "convertible (JObj kvs) = (map_of kvs ''toString'' = None)"
| "convertible JUndefined = True"
| "convertible JNull = True"
| "convertible (JBool b) = True"
| "convertible (JNum n) = True"
| "convertible (JStr str) = True"
| "all_convertible [] = True"
| "all_convertible (x # xs) = (convertible x \<and> all_convertible xs)"

text \<open>
  A well-formed decision for a requested resource, as the front-end takes it: the
  principal is a string; the policy document has the version and one statement with the
  invoke action; a deny is anonymous, for the resource or for all, and has no context; an
  allow is for the resource, has a non-empty principal and a context with the six keys of
  \<^verbatim>\<open>generateAllowPolicy\<close>, all of whose values are strings.
\<close>

definition contextKeys :: "string list" where
  "contextKeys = [''userId'', ''roles'', ''scopes'', ''userIdHeader'', ''authenticated'', ''timestamp'']"

definition wellFormedDecision :: "string \<Rightarrow> decision \<Rightarrow> bool" where
  "wellFormedDecision arn d =
     (isString (principalId d) \<and>
      Version (policyDocument d) = ''2012-10-17'' \<and>
      (case Statement (policyDocument d) of
         [st] \<Rightarrow>
           Action st = ''execute-api:Invoke'' \<and>
           (case Effect st of
              Deny \<Rightarrow>
                principalId d = JStr ''anonymous'' \<and> (Resource st = ''*'' \<or> Resource st = arn)
                \<and> context' d = None
            | Allow \<Rightarrow>
                truthy (principalId d) \<and> Resource st = arn \<and>
                (case context' d of
                   None \<Rightarrow> False
                 | Some ctx \<Rightarrow>
                     map fst ctx = contextKeys \<and> list_all (\<lambda>kv. isString (snd kv)) ctx))
       | _ \<Rightarrow> False))"

section \<open>Example inputs\<close>

text \<open>
  A production configuration, which reads the key from the store, and a development one
  with a local key; an environment built from the clock, the answer of the store and the
  outcome of the library's verification under either key; payloads; an event.
\<close>

definition exampleConfig :: config where
  "exampleConfig =
     \<lparr>NODE_ENV = Some ''production'', jwt_secretName = ''magento/jwt/secret'',
      jwt_issuer = ''magento'', jwt_audience = ''api-gateway'', jwt_algorithm = ''HS256'',
      jwt_localSecret = None, cacheExpiryMs = 300000\<rparr>"

definition localConfig :: config where
  "localConfig =
     \<lparr>NODE_ENV = Some ''development'', jwt_secretName = ''magento/jwt/secret'',
      jwt_issuer = ''magento'', jwt_audience = ''api-gateway'', jwt_algorithm = ''HS256'',
      jwt_localSecret = Some ''local-key'', cacheExpiryMs = 300000\<rparr>"

definition exampleEnv ::
  "int \<Rightarrow> (js_error + string option) \<Rightarrow> (js_error + (string \<times> jsval) list) \<Rightarrow> env" where
  "exampleEnv now answer verdict =
     \<lparr>date_now = now,
      getSecretValue = (\<lambda>name. answer),
      jwt_verify = (\<lambda>token secret opts.
         if secret = ''local-key'' \<or> secret = ''store-key'' then verdict
         else Inl (JsonWebTokenError ''invalid signature'')),
      date_toISOString = ''2025-01-01T00:00:00.000Z''\<rparr>"

definition exampleClaims :: "(string \<times> jsval) list" where
  "exampleClaims =
     [(''sub'', JStr ''42''),
      (''roles'', JArr [JStr ''customer'', JStr ''admin'']),
      (''scopes'', JArr [JStr ''read'', JStr ''write'']),
      (''iss'', JStr ''magento''),
      (''aud'', JStr ''api-gateway'')]"

definition boundClaims :: "(string \<times> jsval) list" where
  "boundClaims = (''ip'', JStr ''1.2.3.4'') # exampleClaims"

definition looseClaims :: "(string \<times> jsval) list" where
  "looseClaims =
     [(''sub'', JNum 42),
      (''roles'', JArr [JNum 7, JNull, JStr ''admin'']),
      (''scopes'', JArr [JStr ''read''])]"

definition hostileClaims :: "(string \<times> jsval) list" where
  "hostileClaims =
     [(''sub'', JStr ''42''),
      (''roles'', JArr [JObj [(''toString'', JNum 0)]]),
      (''scopes'', JArr [JStr ''read''])]"

definition exampleEvent :: event where
  "exampleEvent =
     \<lparr>authorizationToken = Some ''Bearer abc.def.ghi'',
      methodArn = ''arn:aws:execute-api:eu-west-1:1:api/prod/GET/orders''\<rparr>"

text \<open>The state after one successful fetch of the key at time 0.\<close>

definition warmState :: state where
  "warmState =
     afterCalls exampleConfig
       [(exampleEnv 0 (Inr (Some ''store-key'')) (Inr exampleClaims), ''magento/jwt/secret'')]
       initial_state"

section \<open>Auxiliary lemmas\<close>

lemma ci_equal_length: "ci_equal a b \<Longrightarrow> length a = length b"
  unfolding ci_equal_def by (rule map_eq_imp_length_eq)

lemma bearer_match_sound:
  assumes "bearer_match h = Some g"
  shows "matchesBearerPattern h g"
proof -
  let ?rest = "drop 6 h"
  from assms have c: "ci_equal (take 6 h) ''Bearer''" and w: "takeWhile is_whitespace ?rest \<noteq> []"
    and t: "\<not> list_ex is_line_terminator g" and g: "g = dropWhile is_whitespace ?rest"
    by (auto simp: bearer_match_def Let_def split: if_splits)
  have "h = take 6 h @ takeWhile is_whitespace ?rest @ g"
    by (simp add: g)
  moreover have "list_all is_whitespace (takeWhile is_whitespace ?rest)"
    by (auto simp: list_all_iff dest: set_takeWhileD)
  ultimately show ?thesis
    using c w t unfolding matchesBearerPattern_def by blast
qed

lemma bearer_match_complete:
  assumes "matchesBearerPattern h g"
  shows "\<exists>g'. bearer_match h = Some g'"
proof -
  from assms obtain p w where h: "h = p @ w @ g" and c: "ci_equal p ''Bearer''" and w: "w \<noteq> []"
    and ws: "list_all is_whitespace w" and t: "\<not> list_ex is_line_terminator g"
    unfolding matchesBearerPattern_def by blast
  from c have l: "length p = 6" by (auto dest: ci_equal_length)
  then have tk: "take 6 h = p" and dr: "drop 6 h = w @ g" by (simp_all add: h)
  from w ws have tw: "takeWhile is_whitespace (w @ g) \<noteq> []"
    by (cases w) (auto simp: list_all_iff)
  from ws have dw: "dropWhile is_whitespace (w @ g) = dropWhile is_whitespace g"
    by (simp add: dropWhile_append list_all_iff)
  have "\<not> list_ex is_line_terminator (dropWhile is_whitespace g)"
    using t by (auto simp: list_ex_iff dest: set_dropWhileD)
  then show ?thesis
    using c tw by (simp add: bearer_match_def tk dr dw)
qed

lemma bearer_match_None_iff:
  "bearer_match h = None \<longleftrightarrow> (\<forall>g. \<not> matchesBearerPattern h g)"
  using bearer_match_sound [of h] bearer_match_complete [of h]
  by (cases "bearer_match h") auto


lemma validateToken_verified:
  "getJwtSecret cfg e s = (Inr k, s1) \<Longrightarrow> jwt_verify e tok k (verifyOptions cfg) = Inr d
   \<Longrightarrow> validateToken cfg e s tok ip = (validateClaims d ip, s1)"
  by (simp add: validateToken_def)

lemma validateToken_verify_error:
  "getJwtSecret cfg e s = (Inr k, s1) \<Longrightarrow> jwt_verify e tok k (verifyOptions cfg) = Inl err
   \<Longrightarrow> validateToken cfg e s tok ip = (validateCatch err, s1)"
  by (simp add: validateToken_def)

lemma validateToken_key_error:
  "getJwtSecret cfg e s = (Inl err, s1) \<Longrightarrow> validateToken cfg e s tok ip = (validateCatch err, s1)"
  by (simp add: validateToken_def)

lemma truthy_not_absent: "truthy v \<Longrightarrow> \<not> absentOrEmptyString v"
  by (auto simp: absentOrEmptyString_def)

lemma good_array_iff:
  "\<not> absentNotArrayOrEmpty v \<longleftrightarrow> (\<exists>xs. v = JArr xs \<and> xs \<noteq> [])"
  by (cases v) (auto simp: absentNotArrayOrEmpty_def)

lemma array_check_iff:
  "(\<not> truthy v \<or> \<not> isArray v \<or> js_length v = JNum 0) \<longleftrightarrow> absentNotArrayOrEmpty v"
  by (cases v) (auto simp: absentNotArrayOrEmpty_def)

lemma validateClaims_valid:
  assumes "truthy (js_prop d ''sub'')"
    and "js_prop d ''roles'' = JArr rs" and "rs \<noteq> []"
    and "js_prop d ''scopes'' = JArr ss" and "ss \<noteq> []"
    and "\<not> (truthy (js_prop d ''ip'') \<and> truthy (opt_to_js ip) \<and> js_prop d ''ip'' \<noteq> opt_to_js ip)"
  shows "validateClaims d ip =
           \<lparr>isValid = True, userId = Some (js_prop d ''sub''), roles = Some (JArr rs),
            scopes = Some (JArr ss), error = None\<rparr>"
  using assms by (auto simp: validateClaims_def)

lemma handler_no_token:
  "extractToken (authorizationToken ev) = None \<or> extractToken (authorizationToken ev) = Some []
   \<Longrightarrow> handler cfg e s ev = (getDenyAllPolicy, s)"
  by (auto simp: handler_def handlerTry_def)

lemma handler_token:
  assumes "extractToken (authorizationToken ev) = Some tok" and "tok \<noteq> []"
    and "validateToken cfg e s tok None = (r, s1)"
  shows "handler cfg e s ev =
           (if \<not> isValid r then generateDenyPolicy (JStr ''anonymous'') (methodArn ev)
            else (case generateAllowPolicy (unwrap (userId r)) (methodArn ev) (unwrap (roles r))
                         (unwrap (scopes r)) (date_toISOString e) of
                    Inl err \<Rightarrow> getDenyAllPolicy
                  | Inr d \<Rightarrow> d), s1)"
  using assms by (simp add: handler_def handlerTry_def split: sum.splits)

lemma extractToken_Some:
  "authorizationToken ev = Some h \<Longrightarrow> bearer_match h = Some tok \<Longrightarrow> tok \<noteq> []
   \<Longrightarrow> extractToken (authorizationToken ev) = Some tok"
  by (auto simp: extractToken_def bearer_match_def Let_def split: if_splits)

lemma validateClaims_not_mismatch:
  "\<not> truthy (js_prop d ''ip'') \<or> \<not> truthy (opt_to_js ip)
   \<Longrightarrow> validateClaims d ip = validateClaims d None"
  by (auto simp: validateClaims_def)

lemma validateClaims_None_error:
  "error (validateClaims d None) \<noteq> Some ''IP address mismatch''"
  by (simp add: validateClaims_def invalid_def)

lemma validateCatch_error:
  "error (validateCatch err) \<noteq> Some ''IP address mismatch''"
  by (simp add: validateCatch_def invalid_def)

lemma validateCatch_invalid: "\<not> isValid (validateCatch err)"
  by (simp add: validateCatch_def invalid_def)

lemma validateToken_cases:
  "(\<exists>err. fst (validateToken cfg e s tok ip) = validateCatch err)
   \<or> (\<exists>d. fst (validateToken cfg e s tok ip) = validateClaims d ip)"
  by (auto simp: validateToken_def split: prod.splits sum.splits)

lemma getSecret_no_bypass:
  assumes "\<not> localBypass cfg name"
  shows "getSecret cfg e s name =
           (case secretsCache s name of
              None \<Rightarrow> fetchSecret cfg e s name
            | Some c \<Rightarrow>
                (if date_now e - timestamp c < cacheExpiryMs cfg then (Inr (cache_value c), s)
                 else fetchSecret cfg e s name))"
proof -
  have c: "(useLocalSecrets cfg \<and> name = jwt_secretName cfg
             \<and> truthy (opt_to_js (jwt_localSecret cfg))) = False"
    using assms by (simp add: localBypass_def)
  show ?thesis
    by (simp only: getSecret_def c if_False option.case Let_def)
qed

lemma getSecret_bypass:
  assumes "localBypass cfg name"
  shows "\<exists>l. jwt_localSecret cfg = Some l \<and> l \<noteq> [] \<and> getSecret cfg e s name = (Inr l, s)"
proof -
  have c: "(useLocalSecrets cfg \<and> name = jwt_secretName cfg
             \<and> truthy (opt_to_js (jwt_localSecret cfg))) = True"
    using assms by (simp add: localBypass_def)
  from assms obtain l where l: "jwt_localSecret cfg = Some l" "l \<noteq> []"
    by (cases "jwt_localSecret cfg") (auto simp: localBypass_def)
  have "getSecret cfg e s name = (Inr l, s)"
    by (simp only: getSecret_def c if_True) (simp add: l)
  with l show ?thesis by blast
qed

lemma getSecret_fetches:
  "\<not> localBypass cfg name \<Longrightarrow> \<not> cacheFresh cfg e s name
   \<Longrightarrow> getSecret cfg e s name = fetchSecret cfg e s name"
  by (simp add: getSecret_no_bypass cacheFresh_def split: option.splits)

lemma fetchSecret_failure:
  "storeFails e name \<Longrightarrow>
   fetchSecret cfg e s name = (Inl (storeError e name), s\<lparr>store_calls := store_calls s @ [name]\<rparr>)"
  by (simp add: fetchSecret_def storeFails_def storeError_def Let_def
      split: sum.splits option.splits)

lemma getSecret_store_failure:
  assumes "\<not> localBypass cfg name" and "\<not> cacheFresh cfg e s name" and "storeFails e name"
  shows "getSecret cfg e s name =
           (Inl (storeError e name), s\<lparr>store_calls := store_calls s @ [name]\<rparr>)"
  using assms by (simp add: getSecret_fetches fetchSecret_failure)

lemma validateToken_None_error:
  "error (fst (validateToken cfg e s tok None)) \<noteq> Some ''IP address mismatch''"
  using validateToken_cases [of cfg e s tok None]
  by (auto simp: validateClaims_None_error validateCatch_error)

lemma validateToken_valid_shape:
  assumes "isValid (fst (validateToken cfg e s tok ip))"
  shows "\<exists>d. fst (validateToken cfg e s tok ip) =
               \<lparr>isValid = True, userId = Some (js_prop d ''sub''),
                roles = Some (js_prop d ''roles''), scopes = Some (js_prop d ''scopes''),
                error = None\<rparr>
             \<and> truthy (js_prop d ''sub'')"
proof -
  from validateToken_cases [of cfg e s tok ip] assms
  obtain d where d: "fst (validateToken cfg e s tok ip) = validateClaims d ip"
    by (auto simp: validateCatch_invalid)
  with assms have "isValid (validateClaims d ip)" by simp
  then have "validateClaims d ip =
               \<lparr>isValid = True, userId = Some (js_prop d ''sub''),
                roles = Some (js_prop d ''roles''), scopes = Some (js_prop d ''scopes''),
                error = None\<rparr> \<and> truthy (js_prop d ''sub'')"
    by (simp add: validateClaims_def invalid_def split: if_splits)
  with d show ?thesis by auto
qed

lemma generateAllowPolicy_shape:
  assumes "generateAllowPolicy uid arn rs ss stamp = Inr d"
  shows "\<exists>jr js. d = \<lparr>principalId = uid,
             policyDocument = \<lparr>Version = ''2012-10-17'',
               Statement = [\<lparr>Action = ''execute-api:Invoke'', Effect = Allow, Resource = arn\<rparr>]\<rparr>,
             context' = Some [(''userId'', uid), (''roles'', JStr jr), (''scopes'', JStr js),
                              (''userIdHeader'', uid), (''authenticated'', JStr ''true''),
                              (''timestamp'', JStr stamp)]\<rparr>"
  using assms
  by (auto simp: generateAllowPolicy_def generatePolicy_def split: sum.splits)

lemma handler_cases:
  "fst (handler cfg e s ev) = getDenyAllPolicy
   \<or> fst (handler cfg e s ev) = generateDenyPolicy (JStr ''anonymous'') (methodArn ev)
   \<or> (\<exists>uid rs ss. truthy uid
         \<and> generateAllowPolicy uid (methodArn ev) rs ss (date_toISOString e)
             = Inr (fst (handler cfg e s ev)))"
proof (cases "extractToken (authorizationToken ev) = None
              \<or> extractToken (authorizationToken ev) = Some []")
  case True
  then show ?thesis by (simp add: handler_no_token)
next
  case False
  then obtain tok where x: "extractToken (authorizationToken ev) = Some tok" "tok \<noteq> []"
    by auto
  obtain r s1 where v: "validateToken cfg e s tok None = (r, s1)"
    by (cases "validateToken cfg e s tok None")
  note h = handler_token [OF x v]
  show ?thesis
  proof (cases "isValid r")
    case False
    with h show ?thesis by simp
  next
    case True
    with v validateToken_valid_shape [of cfg e s tok None]
    obtain d where r: "r = \<lparr>isValid = True, userId = Some (js_prop d ''sub''),
                roles = Some (js_prop d ''roles''), scopes = Some (js_prop d ''scopes''),
                error = None\<rparr>" and t: "truthy (js_prop d ''sub'')"
      by auto
    show ?thesis
    proof (cases "generateAllowPolicy (js_prop d ''sub'') (methodArn ev) (js_prop d ''roles'')
                    (js_prop d ''scopes'') (date_toISOString e)")
      case (Inl err)
      with h r show ?thesis by simp
    next
      case (Inr dec)
      with h r have "fst (handler cfg e s ev) = dec" by simp
      with Inr t show ?thesis by blast
    qed
  qed
qed

lemma fetchSecret_success:
  assumes "fetchSecret cfg e s name = (Inr v, s1)"
  shows "s1 = s\<lparr>store_calls := store_calls s @ [name],
               secretsCache := (secretsCache s)(name \<mapsto> \<lparr>cache_value = v, timestamp = date_now e\<rparr>)\<rparr>"
  using assms
  by (auto simp: fetchSecret_def Let_def split: sum.splits option.splits if_splits)

lemma fetchSecret_cache_other:
  "k \<noteq> name \<Longrightarrow> secretsCache (snd (fetchSecret cfg e s name)) k = secretsCache s k"
  by (auto simp: fetchSecret_def Let_def split: sum.splits option.splits if_splits)

lemma getSecret_keeps_bypass_invariant:
  assumes "localBypass cfg k" and "secretsCache s k = None"
  shows "secretsCache (snd (getSecret cfg e s name)) k = None"
proof (cases "name = k")
  case True
  with assms(1) getSecret_bypass [of cfg name e s] assms(2) show ?thesis by auto
next
  case False
  with assms(1) have nb: "\<not> localBypass cfg name"
    by (auto simp: localBypass_def)
  from False have "k \<noteq> name" by simp
  then show ?thesis
    using assms(2)
    by (simp add: getSecret_no_bypass [OF nb] fetchSecret_cache_other
        split: option.splits)
qed

lemma afterCalls_bypass_invariant:
  "localBypass cfg k \<Longrightarrow> secretsCache s k = None
   \<Longrightarrow> secretsCache (afterCalls cfg calls s) k = None"
  by (induction calls arbitrary: s) (auto simp: getSecret_keeps_bypass_invariant)

lemma getSecret_cached:
  assumes "secretsCache (afterCalls cfg calls initial_state) name = Some c"
    and "date_now e - timestamp c < cacheExpiryMs cfg"
  shows "getSecret cfg e (afterCalls cfg calls initial_state) name =
           (Inr (cache_value c), afterCalls cfg calls initial_state)"
proof -
  have "\<not> localBypass cfg name"
  proof
    assume "localBypass cfg name"
    then have "secretsCache (afterCalls cfg calls initial_state) name = None"
      by (rule afterCalls_bypass_invariant) (simp add: initial_state_def)
    with assms(1) show False by simp
  qed
  then show ?thesis
    using assms by (simp add: getSecret_no_bypass)
qed

lemma getSecret_again:
  assumes g: "getSecret cfg e1 s name = (Inr v, s1)"
    and ttl: "\<forall>c. secretsCache s1 name = Some c \<longrightarrow> date_now e2 - timestamp c < cacheExpiryMs cfg"
  shows "getSecret cfg e2 s1 name = (Inr v, s1)
       \<and> length (store_calls s1) \<le> length (store_calls s) + 1"
proof (cases "localBypass cfg name")
  case True
  from getSecret_bypass [OF True, of e1 s] getSecret_bypass [OF True, of e2 s1] g
  show ?thesis by auto
next
  case False
  note ns = getSecret_no_bypass [OF False]
  show ?thesis
  proof (cases "cacheFresh cfg e1 s name")
    case True
    then obtain c where c: "secretsCache s name = Some c"
      "date_now e1 - timestamp c < cacheExpiryMs cfg"
      by (auto simp: cacheFresh_def split: option.splits)
    with g have "s1 = s" "v = cache_value c" by (simp_all add: ns)
    with c ttl show ?thesis by (simp add: ns)
  next
    case nf: False
    with g False have "fetchSecret cfg e1 s name = (Inr v, s1)"
      by (simp add: getSecret_fetches)
    from fetchSecret_success [OF this] ttl show ?thesis
      by (simp add: ns)
  qed
qed




lemma strings_convertible: "all_convertible (map JStr names)"
  by (induction names) simp_all

lemma generateAllowPolicy_arrays:
  "generateAllowPolicy uid arn (JArr rs) (JArr ss) stamp =
     (case js_join rs of
        Inl err \<Rightarrow> Inl err
      | Inr jr \<Rightarrow>
          (case js_join ss of
             Inl err \<Rightarrow> Inl err
           | Inr js \<Rightarrow>
               Inr \<lparr>principalId = uid,
                    policyDocument = \<lparr>Version = ''2012-10-17'',
                      Statement = [\<lparr>Action = ''execute-api:Invoke'', Effect = Allow,
                                    Resource = arn\<rparr>]\<rparr>,
                    context' = Some [(''userId'', uid), (''roles'', JStr jr), (''scopes'', JStr js),
                                     (''userIdHeader'', uid), (''authenticated'', JStr ''true''),
                                     (''timestamp'', JStr stamp)]\<rparr>))"
  by (simp add: generateAllowPolicy_def generatePolicy_def split: sum.splits)

lemma join_error:
  "js_toString v = Inl err \<Longrightarrow> err = TypeError ''Cannot convert object to primitive value''"
  "js_join xs = Inl err \<Longrightarrow> err = TypeError ''Cannot convert object to primitive value''"
  by (induction v and xs rule: js_toString_js_join.induct) (auto split: sum.splits if_splits)

lemma handlerCall_returns:
  "handlerCall cfg e s ev = (Inr (fst (handler cfg e s ev)), snd (handler cfg e s ev))"
  by (simp add: handlerCall_def stringifyEvent_def split: prod.splits)

lemma handlerTry_raises:
  assumes "handlerTry cfg e s ev = (Inl err, s1)"
  shows "\<exists>tok. extractToken (authorizationToken ev) = Some tok \<and> tok \<noteq> []
           \<and> isValid (fst (validateToken cfg e s tok None))
           \<and> snd (validateToken cfg e s tok None) = s1
           \<and> generateAllowPolicy
                (unwrap (userId (fst (validateToken cfg e s tok None))))
                (methodArn ev)
                (unwrap (roles (fst (validateToken cfg e s tok None))))
                (unwrap (scopes (fst (validateToken cfg e s tok None))))
                (date_toISOString e) = Inl err"
  using assms
  by (auto simp: handlerTry_def Let_def split: if_splits option.splits prod.splits)

lemma handlerTry_error:
  assumes "handlerTry cfg e s ev = (Inl err, s1)"
  shows "err = TypeError ''Cannot convert object to primitive value''"
proof -
  from handlerTry_raises [OF assms] obtain tok where
    v: "isValid (fst (validateToken cfg e s tok None))"
    and g: "generateAllowPolicy
                (unwrap (userId (fst (validateToken cfg e s tok None))))
                (methodArn ev)
                (unwrap (roles (fst (validateToken cfg e s tok None))))
                (unwrap (scopes (fst (validateToken cfg e s tok None))))
                (date_toISOString e) = Inl err"
    by blast
  from validateToken_cases [of cfg e s tok None] v
  obtain d where d: "fst (validateToken cfg e s tok None) = validateClaims d None"
    by (auto simp: validateCatch_invalid)
  with v have ok: "isValid (validateClaims d None)" by simp
  then obtain rs ss where r: "js_prop d ''roles'' = JArr rs" and c: "js_prop d ''scopes'' = JArr ss"
    and eq: "validateClaims d None =
               \<lparr>isValid = True, userId = Some (js_prop d ''sub''),
                roles = Some (js_prop d ''roles''), scopes = Some (js_prop d ''scopes''),
                error = None\<rparr>"
    by (cases "js_prop d ''roles''"; cases "js_prop d ''scopes''")
       (auto simp: validateClaims_def invalid_def split: if_splits)
  from g d eq r c have "generateAllowPolicy (js_prop d ''sub'') (methodArn ev) (JArr rs) (JArr ss)
      (date_toISOString e) = Inl err"
    by simp
  then show ?thesis
    by (auto simp: generateAllowPolicy_arrays split: sum.splits dest: join_error(2))
qed

lemma handler_wellFormed:
  assumes "isString (principalId (fst (handler cfg e s ev)))"
  shows "wellFormedDecision (methodArn ev) (fst (handler cfg e s ev))"
  using handler_cases [of cfg e s ev]
proof (elim disjE exE conjE)
  assume "fst (handler cfg e s ev) = getDenyAllPolicy"
  then show ?thesis
    by (simp add: wellFormedDecision_def getDenyAllPolicy_def denyAllPolicy_def)
next
  assume "fst (handler cfg e s ev) = generateDenyPolicy (JStr ''anonymous'') (methodArn ev)"
  then show ?thesis
    by (simp add: wellFormedDecision_def generateDenyPolicy_def generatePolicy_def)
next
  fix uid rs ss
  assume t: "truthy uid"
    and g: "generateAllowPolicy uid (methodArn ev) rs ss (date_toISOString e)
             = Inr (fst (handler cfg e s ev))"
  from generateAllowPolicy_shape [OF g] obtain jr js where
    d: "fst (handler cfg e s ev) = \<lparr>principalId = uid,
             policyDocument = \<lparr>Version = ''2012-10-17'',
               Statement = [\<lparr>Action = ''execute-api:Invoke'', Effect = Allow,
                             Resource = methodArn ev\<rparr>]\<rparr>,
             context' = Some [(''userId'', uid), (''roles'', JStr jr), (''scopes'', JStr js),
                              (''userIdHeader'', uid), (''authenticated'', JStr ''true''),
                              (''timestamp'', JStr (date_toISOString e))]\<rparr>"
    by blast
  with assms have "isString uid" by simp
  with d t show ?thesis
    by (simp add: wellFormedDecision_def contextKeys_def)
qed

text \<open>The example inputs, evaluated.\<close>

lemma local_key: "getJwtSecret localConfig e s = (Inr ''local-key'', s)"
  by (simp add: getJwtSecret_def getSecret_def useLocalSecrets_def localConfig_def)

lemma example_bearer: "bearer_match ''Bearer abc.def.ghi'' = Some ''abc.def.ghi''"
  by (simp add: bearer_match_def ci_equal_def upper_code_def is_whitespace_def is_line_terminator_def)

lemma warmState_eq:
  "warmState = \<lparr>secretsCache = [''magento/jwt/secret'' \<mapsto> \<lparr>cache_value = ''store-key'', timestamp = 0\<rparr>],
                store_calls = [''magento/jwt/secret'']\<rparr>"
  by (simp add: warmState_def getSecret_def fetchSecret_def useLocalSecrets_def exampleConfig_def
      exampleEnv_def initial_state_def)

lemma extract_example: "extractToken (authorizationToken exampleEvent) = Some ''abc.def.ghi''"
  by (simp add: extractToken_def exampleEvent_def example_bearer)

lemma production_no_bypass: "\<not> localBypass exampleConfig name"
  by (simp add: localBypass_def useLocalSecrets_def exampleConfig_def)

lemma example_verified:
  "jwt_verify (exampleEnv n a (Inr c)) tok ''local-key'' opts = Inr c"
  by (simp add: exampleEnv_def)

lemma example_stamp: "date_toISOString (exampleEnv n a v) = ''2025-01-01T00:00:00.000Z''"
  by (simp add: exampleEnv_def)

lemma example_arn: "methodArn exampleEvent = ''arn:aws:execute-api:eu-west-1:1:api/prod/GET/orders''"
  by (simp add: exampleEvent_def)



lemma example_store_down:
  "getJwtSecret exampleConfig (exampleEnv 1000 (Inl (Error ''store unreachable'')) v) initial_state =
     (Inl (Error ''store unreachable''), initial_state\<lparr>store_calls := [''magento/jwt/secret'']\<rparr>)"
  by (simp add: getJwtSecret_def getSecret_def fetchSecret_def useLocalSecrets_def exampleConfig_def
      exampleEnv_def initial_state_def)

lemma example_loose_handler:
  "handler localConfig (exampleEnv 1000 (Inr None) (Inr looseClaims)) initial_state exampleEvent =
     (\<lparr>principalId = JNum 42,
       policyDocument = \<lparr>Version = ''2012-10-17'',
         Statement = [\<lparr>Action = ''execute-api:Invoke'', Effect = Allow,
                       Resource = ''arn:aws:execute-api:eu-west-1:1:api/prod/GET/orders''\<rparr>]\<rparr>,
       context' = Some [(''userId'', JNum 42),
             (''roles'', JStr ''7,,admin''),
             (''scopes'', JStr ''read''),
             (''userIdHeader'', JNum 42),
             (''authenticated'', JStr ''true''),
             (''timestamp'', JStr ''2025-01-01T00:00:00.000Z'')]\<rparr>, initial_state)"
  using handler_token [OF extract_example _
      validateToken_verified [OF local_key example_verified [of 1000 "Inr None" looseClaims], of initial_state]]
  by (simp add: validateClaims_def js_prop_def looseClaims_def generateAllowPolicy_def
      generatePolicy_def example_arn example_stamp dec_int_def dec_nat.simps digit_char_def)

lemma example_allow_handler:
  "handler localConfig (exampleEnv 1000 (Inr None) (Inr exampleClaims)) initial_state exampleEvent =
     (\<lparr>principalId = JStr ''42'',
       policyDocument = \<lparr>Version = ''2012-10-17'',
         Statement = [\<lparr>Action = ''execute-api:Invoke'', Effect = Allow,
                       Resource = ''arn:aws:execute-api:eu-west-1:1:api/prod/GET/orders''\<rparr>]\<rparr>,
       context' = Some [(''userId'', JStr ''42''),
                        (''roles'', JStr ''customer,admin''),
                        (''scopes'', JStr ''read,write''),
                        (''userIdHeader'', JStr ''42''),
                        (''authenticated'', JStr ''true''),
                        (''timestamp'', JStr ''2025-01-01T00:00:00.000Z'')]\<rparr>, initial_state)"
  using handler_token [OF extract_example _
      validateToken_verified [OF local_key example_verified [of 1000 "Inr None" exampleClaims], of initial_state]]
  by (simp add: validateClaims_def js_prop_def exampleClaims_def generateAllowPolicy_def
      generatePolicy_def example_arn example_stamp)

lemma example_hostile_try:
  "handlerTry localConfig (exampleEnv 1000 (Inr None) (Inr hostileClaims)) initial_state exampleEvent =
     (Inl (TypeError ''Cannot convert object to primitive value''), initial_state)"
  by (simp add: handlerTry_def extract_example validateToken_def local_key exampleEnv_def
      verifyOptions_def validateClaims_def js_prop_def hostileClaims_def generateAllowPolicy_def)

section \<open>C1: a valid token is allowed, with its identity in the context\<close>




section \<open>C2: the handler always returns a decision\<close>

text \<open>
  Claim C2, as amended. For every event the handler function returns a decision and lets
  no exception out: the statement before the \<open>try\<close> raises nothing on an event, and the
  \<open>try\<close> statement always yields a decision. An exception raised while the key is
  resolved or the token verified is caught inside \<open>validateToken\<close>, and the decision is
  a deny of the requested resource, not the deny-all. An exception that leaves a step of
  the chain is caught at the top level and gives the deny-all decision; the only one
  there is comes from the last step, the \<open>TypeError\<close> of joining the roles or scopes of
  a token found valid. The decision is well formed whenever its principal is a string,
  that is, on every deny and on every allow for a token whose subject is a string.
\<close>

theorem handler_always_decides:
  "handlerCall cfg e s ev = (Inr (fst (handler cfg e s ev)), snd (handler cfg e s ev))
   \<and> (\<forall>tok err s1.
         extractToken (authorizationToken ev) = Some tok \<and> tok \<noteq> []
         \<and> (getJwtSecret cfg e s = (Inl err, s1)
            \<or> (\<exists>secret. getJwtSecret cfg e s = (Inr secret, s1)
                  \<and> jwt_verify e tok secret (verifyOptions cfg) = Inl err))
         \<longrightarrow> validateToken cfg e s tok None = (validateCatch err, s1)
           \<and> handler cfg e s ev = (generateDenyPolicy (JStr ''anonymous'') (methodArn ev), s1))
   \<and> (\<forall>err s1. handlerTry cfg e s ev = (Inl err, s1) \<longrightarrow>
         handler cfg e s ev = (getDenyAllPolicy, s1)
       \<and> err = TypeError ''Cannot convert object to primitive value''
       \<and> (\<exists>tok. extractToken (authorizationToken ev) = Some tok \<and> tok \<noteq> []
             \<and> isValid (fst (validateToken cfg e s tok None))
             \<and> generateAllowPolicy
                  (unwrap (userId (fst (validateToken cfg e s tok None))))
                  (methodArn ev)
                  (unwrap (roles (fst (validateToken cfg e s tok None))))
                  (unwrap (scopes (fst (validateToken cfg e s tok None))))
                  (date_toISOString e) = Inl err))
   \<and> (isString (principalId (fst (handler cfg e s ev))) \<longrightarrow>
         wellFormedDecision (methodArn ev) (fst (handler cfg e s ev)))"
proof (intro conjI)
  show "handlerCall cfg e s ev = (Inr (fst (handler cfg e s ev)), snd (handler cfg e s ev))"
    by (rule handlerCall_returns)
  show "\<forall>tok err s1.
         extractToken (authorizationToken ev) = Some tok \<and> tok \<noteq> []
         \<and> (getJwtSecret cfg e s = (Inl err, s1)
            \<or> (\<exists>secret. getJwtSecret cfg e s = (Inr secret, s1)
                  \<and> jwt_verify e tok secret (verifyOptions cfg) = Inl err))
         \<longrightarrow> validateToken cfg e s tok None = (validateCatch err, s1)
           \<and> handler cfg e s ev = (generateDenyPolicy (JStr ''anonymous'') (methodArn ev), s1)"
  proof (intro allI impI)
    fix tok err s1
    assume a: "extractToken (authorizationToken ev) = Some tok \<and> tok \<noteq> []
         \<and> (getJwtSecret cfg e s = (Inl err, s1)
            \<or> (\<exists>secret. getJwtSecret cfg e s = (Inr secret, s1)
                  \<and> jwt_verify e tok secret (verifyOptions cfg) = Inl err))"
    then have v: "validateToken cfg e s tok None = (validateCatch err, s1)"
      by (auto simp: validateToken_key_error validateToken_verify_error)
    from a have x: "extractToken (authorizationToken ev) = Some tok" and n: "tok \<noteq> []"
      by simp_all
    from handler_token [OF x n v]
    have "handler cfg e s ev = (generateDenyPolicy (JStr ''anonymous'') (methodArn ev), s1)"
      by (simp add: validateCatch_invalid)
    with v show "validateToken cfg e s tok None = (validateCatch err, s1)
           \<and> handler cfg e s ev = (generateDenyPolicy (JStr ''anonymous'') (methodArn ev), s1)"
      by simp
  qed
  show "\<forall>err s1. handlerTry cfg e s ev = (Inl err, s1) \<longrightarrow>
         handler cfg e s ev = (getDenyAllPolicy, s1)
       \<and> err = TypeError ''Cannot convert object to primitive value''
       \<and> (\<exists>tok. extractToken (authorizationToken ev) = Some tok \<and> tok \<noteq> []
             \<and> isValid (fst (validateToken cfg e s tok None))
             \<and> generateAllowPolicy
                  (unwrap (userId (fst (validateToken cfg e s tok None))))
                  (methodArn ev)
                  (unwrap (roles (fst (validateToken cfg e s tok None))))
                  (unwrap (scopes (fst (validateToken cfg e s tok None))))
                  (date_toISOString e) = Inl err)"
  proof (intro allI impI)
    fix err s1
    assume t: "handlerTry cfg e s ev = (Inl err, s1)"
    then have "handler cfg e s ev = (getDenyAllPolicy, s1)"
      by (simp add: handler_def)
    moreover note handlerTry_error [OF t]
    moreover from handlerTry_raises [OF t]
    have "\<exists>tok. extractToken (authorizationToken ev) = Some tok \<and> tok \<noteq> []
             \<and> isValid (fst (validateToken cfg e s tok None))
             \<and> generateAllowPolicy
                  (unwrap (userId (fst (validateToken cfg e s tok None))))
                  (methodArn ev)
                  (unwrap (roles (fst (validateToken cfg e s tok None))))
                  (unwrap (scopes (fst (validateToken cfg e s tok None))))
                  (date_toISOString e) = Inl err"
      by blast
    ultimately show "handler cfg e s ev = (getDenyAllPolicy, s1)
       \<and> err = TypeError ''Cannot convert object to primitive value''
       \<and> (\<exists>tok. extractToken (authorizationToken ev) = Some tok \<and> tok \<noteq> []
             \<and> isValid (fst (validateToken cfg e s tok None))
             \<and> generateAllowPolicy
                  (unwrap (userId (fst (validateToken cfg e s tok None))))
                  (methodArn ev)
                  (unwrap (roles (fst (validateToken cfg e s tok None))))
                  (unwrap (scopes (fst (validateToken cfg e s tok None))))
                  (date_toISOString e) = Inl err)"
      by simp
  qed
  show "isString (principalId (fst (handler cfg e s ev))) \<longrightarrow>
         wellFormedDecision (methodArn ev) (fst (handler cfg e s ev))"
    by (simp add: handler_wellFormed)
qed

text \<open>The statement at example inputs.\<close>

theorem handler_always_decides_witness:
  "handlerCall localConfig (exampleEnv 1000 (Inr None) (Inr exampleClaims)) initial_state exampleEvent =
     (Inr \<lparr>principalId = JStr ''42'',
           policyDocument = \<lparr>Version = ''2012-10-17'',
             Statement = [\<lparr>Action = ''execute-api:Invoke'', Effect = Allow,
                           Resource = ''arn:aws:execute-api:eu-west-1:1:api/prod/GET/orders''\<rparr>]\<rparr>,
           context' = Some [(''userId'', JStr ''42''),
                            (''roles'', JStr ''customer,admin''),
                            (''scopes'', JStr ''read,write''),
                            (''userIdHeader'', JStr ''42''),
                            (''authenticated'', JStr ''true''),
                            (''timestamp'', JStr ''2025-01-01T00:00:00.000Z'')]\<rparr>, initial_state)
   \<and> wellFormedDecision ''arn:aws:execute-api:eu-west-1:1:api/prod/GET/orders''
       (fst (handler localConfig (exampleEnv 1000 (Inr None) (Inr exampleClaims)) initial_state exampleEvent))
   \<and> handler exampleConfig (exampleEnv 1000 (Inl (Error ''store unreachable'')) (Inr exampleClaims))
        initial_state exampleEvent =
       (generateDenyPolicy (JStr ''anonymous'') ''arn:aws:execute-api:eu-west-1:1:api/prod/GET/orders'',
        initial_state\<lparr>store_calls := [''magento/jwt/secret'']\<rparr>)
   \<and> handler localConfig (exampleEnv 1000 (Inr None) (Inl (JsonWebTokenError ''invalid signature'')))
        initial_state exampleEvent =
       (generateDenyPolicy (JStr ''anonymous'') ''arn:aws:execute-api:eu-west-1:1:api/prod/GET/orders'',
        initial_state)
   \<and> handlerTry localConfig (exampleEnv 1000 (Inr None) (Inr hostileClaims)) initial_state exampleEvent =
       (Inl (TypeError ''Cannot convert object to primitive value''), initial_state)
   \<and> handler localConfig (exampleEnv 1000 (Inr None) (Inr hostileClaims)) initial_state exampleEvent =
       (getDenyAllPolicy, initial_state)"
proof -
  let ?ok = "exampleEnv 1000 (Inr None) (Inr exampleClaims)"
  let ?down = "exampleEnv 1000 (Inl (Error ''store unreachable'')) (Inr exampleClaims)"
  let ?forged = "exampleEnv 1000 (Inr None) (Inl (JsonWebTokenError ''invalid signature''))"
  let ?hostile = "exampleEnv 1000 (Inr None) (Inr hostileClaims)"
  have x: "extractToken (authorizationToken exampleEvent) = Some ''abc.def.ghi'' \<and> ''abc.def.ghi'' \<noteq> []"
    by (simp add: extract_example)
  note ok = handler_always_decides [of localConfig ?ok initial_state exampleEvent]
  have a: "handlerCall localConfig ?ok initial_state exampleEvent =
      (Inr (fst (handler localConfig ?ok initial_state exampleEvent)),
       snd (handler localConfig ?ok initial_state exampleEvent))"
    using ok [THEN conjunct1] .
  have p: "isString (principalId (fst (handler localConfig ?ok initial_state exampleEvent)))"
    by (simp add: example_allow_handler)
  have b: "wellFormedDecision (methodArn exampleEvent)
      (fst (handler localConfig ?ok initial_state exampleEvent))"
    using ok [THEN conjunct2, THEN conjunct2, THEN conjunct2, rule_format, OF p] .
  have down: "extractToken (authorizationToken exampleEvent) = Some ''abc.def.ghi'' \<and> ''abc.def.ghi'' \<noteq> []
      \<and> (getJwtSecret exampleConfig ?down initial_state =
            (Inl (Error ''store unreachable''), initial_state\<lparr>store_calls := [''magento/jwt/secret'']\<rparr>)
          \<or> (\<exists>secret. getJwtSecret exampleConfig ?down initial_state =
                (Inr secret, initial_state\<lparr>store_calls := [''magento/jwt/secret'']\<rparr>)
              \<and> jwt_verify ?down ''abc.def.ghi'' secret (verifyOptions exampleConfig) =
                  Inl (Error ''store unreachable'')))"
    using x by (simp add: example_store_down)
  have c: "handler exampleConfig ?down initial_state exampleEvent =
       (generateDenyPolicy (JStr ''anonymous'') (methodArn exampleEvent),
        initial_state\<lparr>store_calls := [''magento/jwt/secret'']\<rparr>)"
    using handler_always_decides [of exampleConfig ?down initial_state exampleEvent, THEN conjunct2, THEN conjunct1,
        rule_format, OF down] by simp
  have forged: "extractToken (authorizationToken exampleEvent) = Some ''abc.def.ghi'' \<and> ''abc.def.ghi'' \<noteq> []
      \<and> (getJwtSecret localConfig ?forged initial_state =
            (Inl (JsonWebTokenError ''invalid signature''), initial_state)
          \<or> (\<exists>secret. getJwtSecret localConfig ?forged initial_state = (Inr secret, initial_state)
              \<and> jwt_verify ?forged ''abc.def.ghi'' secret (verifyOptions localConfig) =
                  Inl (JsonWebTokenError ''invalid signature'')))"
    using x by (simp add: local_key exampleEnv_def)
  have d: "handler localConfig ?forged initial_state exampleEvent =
       (generateDenyPolicy (JStr ''anonymous'') (methodArn exampleEvent), initial_state)"
    using handler_always_decides [of localConfig ?forged initial_state exampleEvent, THEN conjunct2, THEN conjunct1,
        rule_format, OF forged] by simp
  have f: "handler localConfig ?hostile initial_state exampleEvent = (getDenyAllPolicy, initial_state)"
    using handler_always_decides [of localConfig ?hostile initial_state exampleEvent, THEN conjunct2, THEN conjunct2,
        THEN conjunct1, rule_format, OF example_hostile_try] by simp
  show ?thesis
    using a b c d f example_hostile_try by (simp add: example_allow_handler example_arn)
qed

text \<open>
  The claim as stated fails twice. The secret store throws inside the chain, and the
  decision is a deny of the requested resource, which is not the deny-all decision. And
  for a token whose subject is the number 42 the decision has that number as its
  principal and in its context, so it is not well formed.
\<close>

theorem handler_always_decides_counterexample:
  "getJwtSecret exampleConfig (exampleEnv 1000 (Inl (Error ''store unreachable'')) (Inr exampleClaims))
      initial_state =
     (Inl (Error ''store unreachable''), initial_state\<lparr>store_calls := [''magento/jwt/secret'']\<rparr>)
   \<and> handler exampleConfig (exampleEnv 1000 (Inl (Error ''store unreachable'')) (Inr exampleClaims))
        initial_state exampleEvent =
       (\<lparr>principalId = JStr ''anonymous'',
         policyDocument = \<lparr>Version = ''2012-10-17'',
           Statement = [\<lparr>Action = ''execute-api:Invoke'', Effect = Deny,
                         Resource = ''arn:aws:execute-api:eu-west-1:1:api/prod/GET/orders''\<rparr>]\<rparr>,
         context' = None\<rparr>, initial_state\<lparr>store_calls := [''magento/jwt/secret'']\<rparr>)
   \<and> \<lparr>principalId = JStr ''anonymous'',
        policyDocument = \<lparr>Version = ''2012-10-17'',
          Statement = [\<lparr>Action = ''execute-api:Invoke'', Effect = Deny,
                        Resource = ''arn:aws:execute-api:eu-west-1:1:api/prod/GET/orders''\<rparr>]\<rparr>,
        context' = None\<rparr> \<noteq> getDenyAllPolicy
   \<and> principalId (fst (handler localConfig (exampleEnv 1000 (Inr None) (Inr looseClaims))
        initial_state exampleEvent)) = JNum 42
   \<and> \<not> wellFormedDecision ''arn:aws:execute-api:eu-west-1:1:api/prod/GET/orders''
         (fst (handler localConfig (exampleEnv 1000 (Inr None) (Inr looseClaims))
            initial_state exampleEvent))"
proof -
  have v: "validateToken exampleConfig
      (exampleEnv 1000 (Inl (Error ''store unreachable'')) (Inr exampleClaims)) initial_state
      ''abc.def.ghi'' None =
     (validateCatch (Error ''store unreachable''),
      initial_state\<lparr>store_calls := [''magento/jwt/secret'']\<rparr>)"
    by (rule validateToken_key_error [OF example_store_down])
  have h: "handler exampleConfig (exampleEnv 1000 (Inl (Error ''store unreachable'')) (Inr exampleClaims))
        initial_state exampleEvent =
       (\<lparr>principalId = JStr ''anonymous'',
         policyDocument = \<lparr>Version = ''2012-10-17'',
           Statement = [\<lparr>Action = ''execute-api:Invoke'', Effect = Deny,
                         Resource = ''arn:aws:execute-api:eu-west-1:1:api/prod/GET/orders''\<rparr>]\<rparr>,
         context' = None\<rparr>, initial_state\<lparr>store_calls := [''magento/jwt/secret'']\<rparr>)"
    using handler_token [OF extract_example _ v]
    by (simp add: validateCatch_invalid generateDenyPolicy_def generatePolicy_def example_arn)
  show ?thesis
    by (simp add: example_store_down h example_loose_handler wellFormedDecision_def
        getDenyAllPolicy_def denyAllPolicy_def)
qed

section \<open>C3: no credential, deny all\<close>

text \<open>
  Claim C3. When the authorization credential is absent, or is a string that does not
  match the case-insensitive \<^verbatim>\<open>Bearer <token>\<close> pattern, the handler returns the
  deny-all decision: effect Deny, resource \<open>*\<close>, principal \<open>anonymous\<close>, no context; the
  state is untouched.
\<close>

theorem no_credential_denies_all:
  assumes "authorizationToken ev = None
           \<or> (\<exists>h. authorizationToken ev = Some h \<and> (\<forall>g. \<not> matchesBearerPattern h g))"
  shows "handler cfg e s ev =
           (\<lparr>principalId = JStr ''anonymous'',
             policyDocument = \<lparr>Version = ''2012-10-17'',
               Statement = [\<lparr>Action = ''execute-api:Invoke'', Effect = Deny, Resource = ''*''\<rparr>]\<rparr>,
             context' = None\<rparr>, s)"
proof -
  from assms have "extractToken (authorizationToken ev) = None"
    by (auto simp: extractToken_def bearer_match_None_iff)
  then have "handler cfg e s ev = (getDenyAllPolicy, s)"
    by (simp add: handler_no_token)
  then show ?thesis
    by (simp add: getDenyAllPolicy_def denyAllPolicy_def)
qed

text \<open>The statement at an example input.\<close>

theorem no_credential_denies_all_witness:
  "handler exampleConfig (exampleEnv 1000 (Inr (Some ''store-key'')) (Inr exampleClaims)) initial_state
      \<lparr>authorizationToken = None, methodArn = ''arn''\<rparr> =
     (\<lparr>principalId = JStr ''anonymous'',
       policyDocument = \<lparr>Version = ''2012-10-17'',
         Statement = [\<lparr>Action = ''execute-api:Invoke'', Effect = Deny, Resource = ''*''\<rparr>]\<rparr>,
       context' = None\<rparr>, initial_state)
   \<and> (\<forall>g. \<not> matchesBearerPattern ''Basic dXNlcjpwdw=='' g)
   \<and> handler exampleConfig (exampleEnv 1000 (Inr (Some ''store-key'')) (Inr exampleClaims)) initial_state
      \<lparr>authorizationToken = Some ''Basic dXNlcjpwdw=='', methodArn = ''arn''\<rparr> =
     (\<lparr>principalId = JStr ''anonymous'',
       policyDocument = \<lparr>Version = ''2012-10-17'',
         Statement = [\<lparr>Action = ''execute-api:Invoke'', Effect = Deny, Resource = ''*''\<rparr>]\<rparr>,
       context' = None\<rparr>, initial_state)"
proof -
  have "bearer_match ''Basic dXNlcjpwdw=='' = None"
    by (simp add: bearer_match_def ci_equal_def upper_code_def)
  then have b: "\<forall>g. \<not> matchesBearerPattern ''Basic dXNlcjpwdw=='' g"
    by (simp add: bearer_match_None_iff)
  show ?thesis
    using b
      no_credential_denies_all [where ev = "\<lparr>authorizationToken = None, methodArn = ''arn''\<rparr>" and cfg = exampleConfig
        and e = "exampleEnv 1000 (Inr (Some ''store-key'')) (Inr exampleClaims)" and s = initial_state]
      no_credential_denies_all [where ev = "\<lparr>authorizationToken = Some ''Basic dXNlcjpwdw=='', methodArn = ''arn''\<rparr>"
        and cfg = exampleConfig
        and e = "exampleEnv 1000 (Inr (Some ''store-key'')) (Inr exampleClaims)" and s = initial_state]
    by simp
qed

section \<open>C4: the failure reasons of the validator, in order\<close>

text \<open>
  Claim C4. Once the key is resolved, \<open>validateToken\<close> maps each failure to its reason
  and stops at the first one. A token the library reports as expired gives
  \<open>Token expired\<close>; one not yet valid gives \<open>Token not yet valid\<close>; any other
  verification error gives \<open>Invalid token: \<close> followed by its message; whatever the
  claims are, since no payload is decoded then. For a verified token: an absent or empty
  subject gives the subject reason, whatever the roles and scopes are; with a subject,
  roles that are absent, not an array or empty give the roles reason, whatever the scopes
  are; with a subject and good roles, such scopes give the scopes reason.
\<close>

theorem validateToken_failure_reasons:
  assumes key: "getJwtSecret cfg e s = (Inr secret, s1)"
  shows "(\<forall>m. jwt_verify e token secret (verifyOptions cfg) = Inl (TokenExpiredError m) \<longrightarrow>
            validateToken cfg e s token sourceIp = (invalid ''Token expired'', s1))
       \<and> (\<forall>m. jwt_verify e token secret (verifyOptions cfg) = Inl (NotBeforeError m) \<longrightarrow>
            validateToken cfg e s token sourceIp = (invalid ''Token not yet valid'', s1))
       \<and> (\<forall>m. jwt_verify e token secret (verifyOptions cfg) = Inl (JsonWebTokenError m) \<longrightarrow>
            validateToken cfg e s token sourceIp = (invalid (''Invalid token: '' @ m), s1))
       \<and> (\<forall>decoded. jwt_verify e token secret (verifyOptions cfg) = Inr decoded \<longrightarrow>
            (absentOrEmptyString (js_prop decoded ''sub'') \<longrightarrow>
               validateToken cfg e s token sourceIp =
                 (invalid ''Missing subject (user ID) in token'', s1))
          \<and> (truthy (js_prop decoded ''sub'') \<and> absentNotArrayOrEmpty (js_prop decoded ''roles'') \<longrightarrow>
               validateToken cfg e s token sourceIp =
                 (invalid ''Missing or invalid roles in token'', s1))
          \<and> (truthy (js_prop decoded ''sub'') \<and> \<not> absentNotArrayOrEmpty (js_prop decoded ''roles'')
               \<and> absentNotArrayOrEmpty (js_prop decoded ''scopes'') \<longrightarrow>
               validateToken cfg e s token sourceIp =
                 (invalid ''Missing or invalid scopes in token'', s1)))"
proof (intro conjI allI impI)
  fix m assume "jwt_verify e token secret (verifyOptions cfg) = Inl (TokenExpiredError m)"
  then show "validateToken cfg e s token sourceIp = (invalid ''Token expired'', s1)"
    using key by (simp add: validateToken_verify_error validateCatch_def)
next
  fix m assume "jwt_verify e token secret (verifyOptions cfg) = Inl (NotBeforeError m)"
  then show "validateToken cfg e s token sourceIp = (invalid ''Token not yet valid'', s1)"
    using key by (simp add: validateToken_verify_error validateCatch_def)
next
  fix m assume "jwt_verify e token secret (verifyOptions cfg) = Inl (JsonWebTokenError m)"
  then show "validateToken cfg e s token sourceIp = (invalid (''Invalid token: '' @ m), s1)"
    using key by (simp add: validateToken_verify_error validateCatch_def)
next
  fix decoded
  assume v: "jwt_verify e token secret (verifyOptions cfg) = Inr decoded"
    and a: "absentOrEmptyString (js_prop decoded ''sub'')"
  from a have "\<not> truthy (js_prop decoded ''sub'')"
    by (auto simp: absentOrEmptyString_def)
  then show "validateToken cfg e s token sourceIp =
      (invalid ''Missing subject (user ID) in token'', s1)"
    using key v by (simp add: validateToken_verified validateClaims_def)
next
  fix decoded
  assume v: "jwt_verify e token secret (verifyOptions cfg) = Inr decoded"
    and a: "truthy (js_prop decoded ''sub'') \<and> absentNotArrayOrEmpty (js_prop decoded ''roles'')"
  show "validateToken cfg e s token sourceIp = (invalid ''Missing or invalid roles in token'', s1)"
    using key v a array_check_iff [of "js_prop decoded ''roles''"]
    by (simp add: validateToken_verified validateClaims_def)
next
  fix decoded
  assume v: "jwt_verify e token secret (verifyOptions cfg) = Inr decoded"
    and a: "truthy (js_prop decoded ''sub'') \<and> \<not> absentNotArrayOrEmpty (js_prop decoded ''roles'')
               \<and> absentNotArrayOrEmpty (js_prop decoded ''scopes'')"
  show "validateToken cfg e s token sourceIp = (invalid ''Missing or invalid scopes in token'', s1)"
    using key v a array_check_iff [of "js_prop decoded ''roles''"]
      array_check_iff [of "js_prop decoded ''scopes''"]
    by (simp add: validateToken_verified validateClaims_def)
qed

text \<open>The statement at an example input.\<close>

theorem validateToken_failure_reasons_witness:
  "fst (validateToken localConfig (exampleEnv 1000 (Inr None) (Inl (TokenExpiredError ''jwt expired'')))
          initial_state ''abc.def.ghi'' None) = invalid ''Token expired''
   \<and> fst (validateToken localConfig (exampleEnv 1000 (Inr None) (Inl (NotBeforeError ''jwt not active'')))
          initial_state ''abc.def.ghi'' None) = invalid ''Token not yet valid''
   \<and> fst (validateToken localConfig (exampleEnv 1000 (Inr None) (Inl (JsonWebTokenError ''invalid signature'')))
          initial_state ''abc.def.ghi'' None) = invalid ''Invalid token: invalid signature''
   \<and> fst (validateToken localConfig (exampleEnv 1000 (Inr None) (Inr [(''roles'', JArr [])]))
          initial_state ''abc.def.ghi'' None) = invalid ''Missing subject (user ID) in token''
   \<and> fst (validateToken localConfig (exampleEnv 1000 (Inr None) (Inr [(''sub'', JStr ''42''), (''roles'', JStr ''admin'')]))
          initial_state ''abc.def.ghi'' None) = invalid ''Missing or invalid roles in token''
   \<and> fst (validateToken localConfig
            (exampleEnv 1000 (Inr None) (Inr [(''sub'', JStr ''42''), (''roles'', JArr [JStr ''admin'']), (''scopes'', JArr [])]))
          initial_state ''abc.def.ghi'' None) = invalid ''Missing or invalid scopes in token''"
  using
    validateToken_failure_reasons [OF local_key, where e = "exampleEnv 1000 (Inr None) (Inl (TokenExpiredError ''jwt expired''))"
      and s = initial_state and token = "''abc.def.ghi''" and sourceIp = None]
    validateToken_failure_reasons [OF local_key, where e = "exampleEnv 1000 (Inr None) (Inl (NotBeforeError ''jwt not active''))"
      and s = initial_state and token = "''abc.def.ghi''" and sourceIp = None]
    validateToken_failure_reasons [OF local_key, where e = "exampleEnv 1000 (Inr None) (Inl (JsonWebTokenError ''invalid signature''))"
      and s = initial_state and token = "''abc.def.ghi''" and sourceIp = None]
    validateToken_failure_reasons [OF local_key, where e = "exampleEnv 1000 (Inr None) (Inr [(''roles'', JArr [])])"
      and s = initial_state and token = "''abc.def.ghi''" and sourceIp = None]
    validateToken_failure_reasons [OF local_key, where e = "exampleEnv 1000 (Inr None) (Inr [(''sub'', JStr ''42''), (''roles'', JStr ''admin'')])"
      and s = initial_state and token = "''abc.def.ghi''" and sourceIp = None]
    validateToken_failure_reasons [OF local_key, where e = "exampleEnv 1000 (Inr None)
          (Inr [(''sub'', JStr ''42''), (''roles'', JArr [JStr ''admin'']), (''scopes'', JArr [])])"
      and s = initial_state and token = "''abc.def.ghi''" and sourceIp = None]
  by (simp add: exampleEnv_def js_prop_def absentOrEmptyString_def absentNotArrayOrEmpty_def)

section \<open>C5: a failing secret store denies the resource\<close>

text \<open>
  Claim C5. Suppose \<open>getSecret\<close> has to fetch (no local secret stands in for the name and
  the cache has no unexpired entry for it, an expired one included) and the store throws
  or answers without a secret string. Then \<open>getSecret\<close> raises: the error of the store,
  or the error that no value was found; it returns no secret, neither the expired one
  nor an empty one, and leaves the cache as it was. For the name of the JWT secret,
  \<open>validateToken\<close> returns an invalid result (it does not raise), and the handler,
  given a bearer token, denies the requested resource for the principal \<open>anonymous\<close>.
\<close>

theorem store_failure_denies_resource:
  assumes nb: "\<not> localBypass cfg name" and nf: "\<not> cacheFresh cfg e s name"
    and fails: "storeFails e name"
  shows "getSecret cfg e s name =
           (Inl (storeError e name), s\<lparr>store_calls := store_calls s @ [name]\<rparr>)
       \<and> (name = jwt_secretName cfg \<longrightarrow>
            validateToken cfg e s token sourceIp =
              (validateCatch (storeError e name), s\<lparr>store_calls := store_calls s @ [name]\<rparr>)
          \<and> \<not> isValid (fst (validateToken cfg e s token sourceIp))
          \<and> (authorizationToken ev = Some h \<and> bearer_match h = Some token \<and> token \<noteq> [] \<longrightarrow>
               handler cfg e s ev =
                 (\<lparr>principalId = JStr ''anonymous'',
                   policyDocument = \<lparr>Version = ''2012-10-17'',
                     Statement = [\<lparr>Action = ''execute-api:Invoke'', Effect = Deny,
                                   Resource = methodArn ev\<rparr>]\<rparr>,
                   context' = None\<rparr>, s\<lparr>store_calls := store_calls s @ [name]\<rparr>)))"
proof (intro conjI impI)
  show g: "getSecret cfg e s name =
           (Inl (storeError e name), s\<lparr>store_calls := store_calls s @ [name]\<rparr>)"
    using nb nf fails by (rule getSecret_store_failure)
  assume n: "name = jwt_secretName cfg"
  with g have k: "getJwtSecret cfg e s =
      (Inl (storeError e name), s\<lparr>store_calls := store_calls s @ [name]\<rparr>)"
    by (simp add: getJwtSecret_def)
  show v: "validateToken cfg e s token sourceIp =
      (validateCatch (storeError e name), s\<lparr>store_calls := store_calls s @ [name]\<rparr>)"
    using k by (rule validateToken_key_error)
  then show "\<not> isValid (fst (validateToken cfg e s token sourceIp))"
    by (simp add: validateCatch_invalid)
  assume hdr: "authorizationToken ev = Some h \<and> bearer_match h = Some token \<and> token \<noteq> []"
  then have x: "extractToken (authorizationToken ev) = Some token"
    using extractToken_Some [of ev h token] by blast
  have v0: "validateToken cfg e s token None =
      (validateCatch (storeError e name), s\<lparr>store_calls := store_calls s @ [name]\<rparr>)"
    using k by (rule validateToken_key_error)
  show "handler cfg e s ev =
                 (\<lparr>principalId = JStr ''anonymous'',
                   policyDocument = \<lparr>Version = ''2012-10-17'',
                     Statement = [\<lparr>Action = ''execute-api:Invoke'', Effect = Deny,
                                   Resource = methodArn ev\<rparr>]\<rparr>,
                   context' = None\<rparr>, s\<lparr>store_calls := store_calls s @ [name]\<rparr>)"
    using handler_token [OF x _ v0] hdr
    by (simp add: validateCatch_invalid generateDenyPolicy_def generatePolicy_def)
qed

text \<open>The statement at an example input.\<close>

theorem store_failure_denies_resource_witness:
  "getSecret exampleConfig (exampleEnv 300000 (Inl (Error ''store unreachable'')) (Inr exampleClaims))
      warmState ''magento/jwt/secret'' =
     (Inl (Error ''store unreachable''),
      warmState\<lparr>store_calls := [''magento/jwt/secret'', ''magento/jwt/secret'']\<rparr>)
   \<and> fst (validateToken exampleConfig
            (exampleEnv 300000 (Inl (Error ''store unreachable'')) (Inr exampleClaims))
            warmState ''abc.def.ghi'' None) = invalid ''Error validating token''
   \<and> fst (handler exampleConfig
            (exampleEnv 300000 (Inl (Error ''store unreachable'')) (Inr exampleClaims))
            warmState exampleEvent) =
       \<lparr>principalId = JStr ''anonymous'',
        policyDocument = \<lparr>Version = ''2012-10-17'',
          Statement = [\<lparr>Action = ''execute-api:Invoke'', Effect = Deny,
                        Resource = ''arn:aws:execute-api:eu-west-1:1:api/prod/GET/orders''\<rparr>]\<rparr>,
        context' = None\<rparr>
   \<and> getSecret exampleConfig (exampleEnv 1000 (Inr (Some [])) (Inr exampleClaims))
      initial_state ''magento/jwt/secret'' =
     (Inl (Error ''Secret magento/jwt/secret not found or has no value''),
      initial_state\<lparr>store_calls := [''magento/jwt/secret'']\<rparr>)"
proof -
  have nf: "\<not> cacheFresh exampleConfig
      (exampleEnv 300000 (Inl (Error ''store unreachable'')) (Inr exampleClaims)) warmState
      ''magento/jwt/secret''"
    by (simp add: cacheFresh_def warmState_eq exampleEnv_def exampleConfig_def)
  have sf: "storeFails (exampleEnv 300000 (Inl (Error ''store unreachable'')) (Inr exampleClaims))
      ''magento/jwt/secret''"
    by (simp add: storeFails_def exampleEnv_def)
  have nf2: "\<not> cacheFresh exampleConfig
      (exampleEnv 1000 (Inr (Some [])) (Inr exampleClaims)) initial_state ''magento/jwt/secret''"
    by (simp add: cacheFresh_def initial_state_def)
  have sf2: "storeFails (exampleEnv 1000 (Inr (Some [])) (Inr exampleClaims)) ''magento/jwt/secret''"
    by (simp add: storeFails_def exampleEnv_def)
  show ?thesis
    using
      store_failure_denies_resource [OF production_no_bypass nf sf, where token = "''abc.def.ghi''" and sourceIp = None
        and ev = exampleEvent and h = "''Bearer abc.def.ghi''"]
      store_failure_denies_resource [OF production_no_bypass nf2 sf2, where token = "''abc.def.ghi''" and sourceIp = None
        and ev = exampleEvent and h = "''Bearer abc.def.ghi''"]
    by (simp add: example_bearer exampleEvent_def exampleConfig_def storeError_def exampleEnv_def
        validateCatch_def warmState_eq initial_state_def)
qed

section \<open>C6: a fresh cache entry is served without a fetch\<close>

text \<open>
  Claim C6. In every state the process can reach, if the cache has an entry for a name
  and \<open>now - timestamp\<close> is below \<open>cacheExpiryMs\<close>, then \<open>getSecret\<close> returns the cached
  value and leaves the state as it is, the list of store calls included. Consequently:
  if a validation of a token answers valid, and the token is validated again while the
  key that validation left in the cache is within its time to live (and the library
  judges the token as before), then the second validation gives the same result and
  changes nothing, and the two together made at most one call to the store.
\<close>

theorem fresh_cache_no_fetch:
  "(\<forall>c. secretsCache (afterCalls cfg calls initial_state) name = Some c
        \<and> date_now e - timestamp c < cacheExpiryMs cfg \<longrightarrow>
        getSecret cfg e (afterCalls cfg calls initial_state) name =
          (Inr (cache_value c), afterCalls cfg calls initial_state))
   \<and> (\<forall>r1 s1. validateToken cfg e1 s0 token sourceIp = (r1, s1) \<and> isValid r1
        \<and> (\<forall>c. secretsCache s1 (jwt_secretName cfg) = Some c \<longrightarrow>
               date_now e2 - timestamp c < cacheExpiryMs cfg)
        \<and> (\<forall>k. jwt_verify e2 token k (verifyOptions cfg) = jwt_verify e1 token k (verifyOptions cfg))
        \<longrightarrow> validateToken cfg e2 s1 token sourceIp = (r1, s1)
          \<and> length (store_calls s1) \<le> length (store_calls s0) + 1)"
proof (rule conjI; intro allI impI)
  fix c
  assume "secretsCache (afterCalls cfg calls initial_state) name = Some c
        \<and> date_now e - timestamp c < cacheExpiryMs cfg"
  then show "getSecret cfg e (afterCalls cfg calls initial_state) name =
          (Inr (cache_value c), afterCalls cfg calls initial_state)"
    by (simp add: getSecret_cached)
next
  fix r1 s1
  assume a: "validateToken cfg e1 s0 token sourceIp = (r1, s1) \<and> isValid r1
        \<and> (\<forall>c. secretsCache s1 (jwt_secretName cfg) = Some c \<longrightarrow>
               date_now e2 - timestamp c < cacheExpiryMs cfg)
        \<and> (\<forall>k. jwt_verify e2 token k (verifyOptions cfg) = jwt_verify e1 token k (verifyOptions cfg))"
  obtain res s' where g: "getSecret cfg e1 s0 (jwt_secretName cfg) = (res, s')"
    by (cases "getSecret cfg e1 s0 (jwt_secretName cfg)")
  show "validateToken cfg e2 s1 token sourceIp = (r1, s1)
          \<and> length (store_calls s1) \<le> length (store_calls s0) + 1"
  proof (cases res)
    case (Inl err)
    with g have "validateToken cfg e1 s0 token sourceIp = (validateCatch err, s')"
      by (simp add: validateToken_key_error getJwtSecret_def)
    with a have "isValid (validateCatch err)" by auto
    then show ?thesis by (simp add: validateCatch_invalid)
  next
    case (Inr v)
    with g have g1: "getSecret cfg e1 s0 (jwt_secretName cfg) = (Inr v, s')" by simp
    with a have s': "s' = s1"
      by (auto simp: validateToken_def getJwtSecret_def split: sum.splits)
    from a g1 s' have r1: "r1 = (case jwt_verify e1 token v (verifyOptions cfg) of
                          Inl err \<Rightarrow> validateCatch err
                        | Inr decoded \<Rightarrow> validateClaims decoded sourceIp)"
      by (auto simp: validateToken_def getJwtSecret_def split: sum.splits)
    from a have ttl: "\<forall>c. secretsCache s1 (jwt_secretName cfg) = Some c \<longrightarrow>
               date_now e2 - timestamp c < cacheExpiryMs cfg" by simp
    from getSecret_again [OF g1 [unfolded s'] ttl]
    have g2: "getSecret cfg e2 s1 (jwt_secretName cfg) = (Inr v, s1)"
      and n: "length (store_calls s1) \<le> length (store_calls s0) + 1"
      by simp_all
    from a have "jwt_verify e2 token v (verifyOptions cfg) = jwt_verify e1 token v (verifyOptions cfg)"
      by simp
    with g2 r1 have "validateToken cfg e2 s1 token sourceIp = (r1, s1)"
      by (simp add: validateToken_def getJwtSecret_def split: sum.splits)
    with n show ?thesis by simp
  qed
qed

text \<open>The statement at an example input.\<close>

theorem fresh_cache_no_fetch_witness:
  "getSecret exampleConfig (exampleEnv 299999 (Inl (Error ''store unreachable'')) (Inr exampleClaims))
      warmState ''magento/jwt/secret'' = (Inr ''store-key'', warmState)
   \<and> validateToken exampleConfig (exampleEnv 1000 (Inr (Some ''store-key'')) (Inr exampleClaims))
        initial_state ''abc.def.ghi'' None =
       (\<lparr>isValid = True, userId = Some (JStr ''42''),
         roles = Some (JArr [JStr ''customer'', JStr ''admin'']),
         scopes = Some (JArr [JStr ''read'', JStr ''write'']), error = None\<rparr>,
        \<lparr>secretsCache = [''magento/jwt/secret'' \<mapsto> \<lparr>cache_value = ''store-key'', timestamp = 1000\<rparr>],
         store_calls = [''magento/jwt/secret'']\<rparr>)
   \<and> validateToken exampleConfig (exampleEnv 300999 (Inl (Error ''store unreachable'')) (Inr exampleClaims))
        \<lparr>secretsCache = [''magento/jwt/secret'' \<mapsto> \<lparr>cache_value = ''store-key'', timestamp = 1000\<rparr>],
         store_calls = [''magento/jwt/secret'']\<rparr> ''abc.def.ghi'' None =
       (\<lparr>isValid = True, userId = Some (JStr ''42''),
         roles = Some (JArr [JStr ''customer'', JStr ''admin'']),
         scopes = Some (JArr [JStr ''read'', JStr ''write'']), error = None\<rparr>,
        \<lparr>secretsCache = [''magento/jwt/secret'' \<mapsto> \<lparr>cache_value = ''store-key'', timestamp = 1000\<rparr>],
         store_calls = [''magento/jwt/secret'']\<rparr>)"
proof -
  let ?calls = "[(exampleEnv 0 (Inr (Some ''store-key'')) (Inr exampleClaims), ''magento/jwt/secret'')]"
  let ?e = "exampleEnv 299999 (Inl (Error ''store unreachable'')) (Inr exampleClaims)"
  let ?e1 = "exampleEnv 1000 (Inr (Some ''store-key'')) (Inr exampleClaims)"
  let ?e2 = "exampleEnv 300999 (Inl (Error ''store unreachable'')) (Inr exampleClaims)"
  let ?c = "\<lparr>cache_value = ''store-key'', timestamp = 0\<rparr>"
  let ?r1 = "\<lparr>isValid = True, userId = Some (JStr ''42''),
         roles = Some (JArr [JStr ''customer'', JStr ''admin'']),
         scopes = Some (JArr [JStr ''read'', JStr ''write'']), error = None\<rparr>"
  let ?s1 = "\<lparr>secretsCache = [''magento/jwt/secret'' \<mapsto> \<lparr>cache_value = ''store-key'', timestamp = 1000\<rparr>],
         store_calls = [''magento/jwt/secret'']\<rparr>"
  have cached: "secretsCache (afterCalls exampleConfig ?calls initial_state) ''magento/jwt/secret'' = Some ?c
      \<and> date_now ?e - timestamp ?c < cacheExpiryMs exampleConfig"
    using warmState_eq by (simp add: warmState_def exampleEnv_def exampleConfig_def)
  have first: "validateToken exampleConfig ?e1 initial_state ''abc.def.ghi'' None = (?r1, ?s1)"
    by (simp add: validateToken_def getJwtSecret_def getSecret_def fetchSecret_def
        useLocalSecrets_def exampleConfig_def exampleEnv_def initial_state_def verifyOptions_def
        validateClaims_def js_prop_def exampleClaims_def)
  have hyp: "validateToken exampleConfig ?e1 initial_state ''abc.def.ghi'' None = (?r1, ?s1)
      \<and> isValid ?r1
      \<and> (\<forall>c. secretsCache ?s1 (jwt_secretName exampleConfig) = Some c \<longrightarrow>
             date_now ?e2 - timestamp c < cacheExpiryMs exampleConfig)
      \<and> (\<forall>k. jwt_verify ?e2 ''abc.def.ghi'' k (verifyOptions exampleConfig) =
             jwt_verify ?e1 ''abc.def.ghi'' k (verifyOptions exampleConfig))"
    using first by (simp add: exampleEnv_def exampleConfig_def)
  note inst = fresh_cache_no_fetch [where cfg = exampleConfig and calls = ?calls and name = "''magento/jwt/secret''"
      and e = ?e and ?e1.0 = ?e1 and ?s0.0 = initial_state and token = "''abc.def.ghi''"
      and sourceIp = None and ?e2.0 = ?e2]
  have p1: "getSecret exampleConfig ?e (afterCalls exampleConfig ?calls initial_state)
      ''magento/jwt/secret'' = (Inr (cache_value ?c), afterCalls exampleConfig ?calls initial_state)"
    using inst [THEN conjunct1, rule_format, OF cached] .
  have p2: "validateToken exampleConfig ?e2 ?s1 ''abc.def.ghi'' None = (?r1, ?s1)"
    using inst [THEN conjunct2, rule_format, OF hyp] by simp
  show ?thesis
    using p1 first p2 by (simp add: warmState_def)
qed

section \<open>C7: the origin binding check\<close>

text \<open>
  Claim C7, as amended. For a decoded token that passes the subject, roles and scopes
  checks, which come first: if the token carries a bound IP, an origin IP is supplied
  (each present and not empty), and they differ, the result is invalid with
  \<open>IP address mismatch\<close>. If the bound IP or the origin IP is absent, the check is
  skipped, for every decoded token: the result is the one obtained with no origin at all,
  it is never \<open>IP address mismatch\<close>, and it is valid when the earlier checks pass.
\<close>

theorem origin_binding_check:
  assumes key: "getJwtSecret cfg e s = (Inr secret, s1)"
    and ver: "jwt_verify e token secret (verifyOptions cfg) = Inr decoded"
  shows "(truthy (js_prop decoded ''sub'')
            \<and> \<not> absentNotArrayOrEmpty (js_prop decoded ''roles'')
            \<and> \<not> absentNotArrayOrEmpty (js_prop decoded ''scopes'')
            \<and> truthy (js_prop decoded ''ip'') \<and> truthy (opt_to_js sourceIp)
            \<and> js_prop decoded ''ip'' \<noteq> opt_to_js sourceIp
          \<longrightarrow> validateToken cfg e s token sourceIp = (invalid ''IP address mismatch'', s1))
       \<and> (\<not> truthy (js_prop decoded ''ip'') \<or> \<not> truthy (opt_to_js sourceIp)
          \<longrightarrow> validateToken cfg e s token sourceIp = validateToken cfg e s token None
              \<and> error (fst (validateToken cfg e s token sourceIp)) \<noteq> Some ''IP address mismatch''
              \<and> (truthy (js_prop decoded ''sub'')
                    \<and> \<not> absentNotArrayOrEmpty (js_prop decoded ''roles'')
                    \<and> \<not> absentNotArrayOrEmpty (js_prop decoded ''scopes'')
                  \<longrightarrow> validateToken cfg e s token sourceIp =
                        (\<lparr>isValid = True, userId = Some (js_prop decoded ''sub''),
                          roles = Some (js_prop decoded ''roles''),
                          scopes = Some (js_prop decoded ''scopes''), error = None\<rparr>, s1)))"
proof (intro conjI impI)
  assume a: "truthy (js_prop decoded ''sub'')
            \<and> \<not> absentNotArrayOrEmpty (js_prop decoded ''roles'')
            \<and> \<not> absentNotArrayOrEmpty (js_prop decoded ''scopes'')
            \<and> truthy (js_prop decoded ''ip'') \<and> truthy (opt_to_js sourceIp)
            \<and> js_prop decoded ''ip'' \<noteq> opt_to_js sourceIp"
  then have "validateClaims decoded sourceIp = invalid ''IP address mismatch''"
    using array_check_iff [of "js_prop decoded ''roles''"]
      array_check_iff [of "js_prop decoded ''scopes''"]
    by (simp add: validateClaims_def)
  then show "validateToken cfg e s token sourceIp = (invalid ''IP address mismatch'', s1)"
    using key ver by (simp add: validateToken_verified)
next
  assume a: "\<not> truthy (js_prop decoded ''ip'') \<or> \<not> truthy (opt_to_js sourceIp)"
  then have eq: "validateClaims decoded sourceIp = validateClaims decoded None"
    by (rule validateClaims_not_mismatch)
  show "validateToken cfg e s token sourceIp = validateToken cfg e s token None"
    using key ver eq by (simp add: validateToken_verified)
  show "error (fst (validateToken cfg e s token sourceIp)) \<noteq> Some ''IP address mismatch''"
    using key ver eq validateClaims_None_error [of decoded] by (simp add: validateToken_verified)
  assume b: "truthy (js_prop decoded ''sub'')
                    \<and> \<not> absentNotArrayOrEmpty (js_prop decoded ''roles'')
                    \<and> \<not> absentNotArrayOrEmpty (js_prop decoded ''scopes'')"
  then obtain rs ss where "js_prop decoded ''roles'' = JArr rs" "rs \<noteq> []"
    "js_prop decoded ''scopes'' = JArr ss" "ss \<noteq> []"
    by (auto simp: good_array_iff)
  with a b have "validateClaims decoded sourceIp =
      \<lparr>isValid = True, userId = Some (js_prop decoded ''sub''),
       roles = Some (js_prop decoded ''roles''),
       scopes = Some (js_prop decoded ''scopes''), error = None\<rparr>"
    by (auto simp: validateClaims_valid)
  then show "validateToken cfg e s token sourceIp =
                        (\<lparr>isValid = True, userId = Some (js_prop decoded ''sub''),
                          roles = Some (js_prop decoded ''roles''),
                          scopes = Some (js_prop decoded ''scopes''), error = None\<rparr>, s1)"
    using key ver by (simp add: validateToken_verified)
qed

text \<open>The statement at an example input.\<close>

theorem origin_binding_check_witness:
  "validateToken localConfig (exampleEnv 1000 (Inr None) (Inr boundClaims)) initial_state
      ''abc.def.ghi'' (Some ''5.6.7.8'') = (invalid ''IP address mismatch'', initial_state)
   \<and> validateToken localConfig (exampleEnv 1000 (Inr None) (Inr boundClaims)) initial_state
      ''abc.def.ghi'' None =
       (\<lparr>isValid = True, userId = Some (JStr ''42''),
         roles = Some (JArr [JStr ''customer'', JStr ''admin'']),
         scopes = Some (JArr [JStr ''read'', JStr ''write'']), error = None\<rparr>, initial_state)"
proof -
  let ?e = "exampleEnv 1000 (Inr None) (Inr boundClaims)"
  have v: "jwt_verify ?e ''abc.def.ghi'' ''local-key'' (verifyOptions localConfig) = Inr boundClaims"
    by (rule example_verified)
  have good: "truthy (js_prop boundClaims ''sub'')
      \<and> \<not> absentNotArrayOrEmpty (js_prop boundClaims ''roles'')
      \<and> \<not> absentNotArrayOrEmpty (js_prop boundClaims ''scopes'')"
    by (simp add: boundClaims_def exampleClaims_def js_prop_def absentNotArrayOrEmpty_def)
  have differ: "truthy (js_prop boundClaims ''ip'') \<and> truthy (opt_to_js (Some ''5.6.7.8''))
      \<and> js_prop boundClaims ''ip'' \<noteq> opt_to_js (Some ''5.6.7.8'')"
    by (simp add: boundClaims_def js_prop_def)
  have absent: "\<not> truthy (js_prop boundClaims ''ip'') \<or> \<not> truthy (opt_to_js None)"
    by simp
  have m: "validateToken localConfig ?e initial_state ''abc.def.ghi'' (Some ''5.6.7.8'') =
      (invalid ''IP address mismatch'', initial_state)"
    using origin_binding_check [OF local_key v, where s = initial_state and sourceIp = "Some ''5.6.7.8''",
        THEN conjunct1] good differ by blast
  have n: "validateToken localConfig ?e initial_state ''abc.def.ghi'' None =
      (\<lparr>isValid = True, userId = Some (js_prop boundClaims ''sub''),
        roles = Some (js_prop boundClaims ''roles''),
        scopes = Some (js_prop boundClaims ''scopes''), error = None\<rparr>, initial_state)"
    using origin_binding_check [OF local_key v, where s = initial_state and sourceIp = None,
        THEN conjunct2] good absent by blast
  show ?thesis
    using m n by (simp add: boundClaims_def exampleClaims_def js_prop_def)
qed

text \<open>
  The claim as stated, for every decoded token, fails: a token that carries a bound IP
  but no subject, validated with a different origin IP, is refused for its missing
  subject, since that check comes first.
\<close>

theorem origin_binding_check_counterexample:
  "validateToken localConfig
     (exampleEnv 1000 (Inr None)
        (Inr [(''ip'', JStr ''1.2.3.4''), (''roles'', JArr [JStr ''admin'']),
              (''scopes'', JArr [JStr ''read''])]))
     initial_state ''abc.def.ghi'' (Some ''5.6.7.8'') =
     (invalid ''Missing subject (user ID) in token'', initial_state)
   \<and> invalid ''Missing subject (user ID) in token'' \<noteq> invalid ''IP address mismatch''"
  by (simp add: validateToken_verified [OF local_key example_verified] validateClaims_def
      js_prop_def invalid_def)

section \<open>C8: the shape of a decision\<close>

text \<open>
  Claim C8, as amended. Every decision the handler returns has a principal and a policy
  document of version \<open>2012-10-17\<close> with one statement, whose action is
  \<open>execute-api:Invoke\<close> (the claim says \<open>invoke\<close>); a context is present exactly on Allow;
  its \<open>roles\<close>, \<open>scopes\<close>, \<open>authenticated\<close> and \<open>timestamp\<close> values are strings and its
  \<open>userId\<close> and \<open>userIdHeader\<close> values are the principal, so that it maps strings to
  strings whenever the principal (the subject of the token) is a string.
\<close>

theorem decision_shape:
  "Version (policyDocument (fst (handler cfg e s ev))) = ''2012-10-17''
   \<and> (\<exists>eff res. Statement (policyDocument (fst (handler cfg e s ev))) =
                   [\<lparr>Action = ''execute-api:Invoke'', Effect = eff, Resource = res\<rparr>]
        \<and> (context' (fst (handler cfg e s ev)) \<noteq> None \<longleftrightarrow> eff = Allow))
   \<and> (\<forall>ctx. context' (fst (handler cfg e s ev)) = Some ctx \<longrightarrow>
          (\<exists>joinedRoles joinedScopes stamp.
              ctx = [(''userId'', principalId (fst (handler cfg e s ev))),
                     (''roles'', JStr joinedRoles),
                     (''scopes'', JStr joinedScopes),
                     (''userIdHeader'', principalId (fst (handler cfg e s ev))),
                     (''authenticated'', JStr ''true''),
                     (''timestamp'', JStr stamp)])
        \<and> (isString (principalId (fst (handler cfg e s ev))) \<longrightarrow>
              list_all (\<lambda>kv. isString (snd kv)) ctx))"
  using handler_cases [of cfg e s ev]
proof (elim disjE exE conjE)
  assume "fst (handler cfg e s ev) = getDenyAllPolicy"
  then show ?thesis
    by (simp add: getDenyAllPolicy_def denyAllPolicy_def)
next
  assume "fst (handler cfg e s ev) = generateDenyPolicy (JStr ''anonymous'') (methodArn ev)"
  then show ?thesis
    by (simp add: generateDenyPolicy_def generatePolicy_def)
next
  fix uid rs ss
  assume "generateAllowPolicy uid (methodArn ev) rs ss (date_toISOString e)
             = Inr (fst (handler cfg e s ev))"
  from generateAllowPolicy_shape [OF this] obtain jr js where
    "fst (handler cfg e s ev) = \<lparr>principalId = uid,
             policyDocument = \<lparr>Version = ''2012-10-17'',
               Statement = [\<lparr>Action = ''execute-api:Invoke'', Effect = Allow,
                             Resource = methodArn ev\<rparr>]\<rparr>,
             context' = Some [(''userId'', uid), (''roles'', JStr jr), (''scopes'', JStr js),
                              (''userIdHeader'', uid), (''authenticated'', JStr ''true''),
                              (''timestamp'', JStr (date_toISOString e))]\<rparr>"
    by blast
  then show ?thesis
    by simp
qed

text \<open>The statement at an example input.\<close>

theorem decision_shape_witness:
  "context' (fst (handler localConfig (exampleEnv 1000 (Inr None) (Inr exampleClaims)) initial_state
      exampleEvent)) =
     Some [(''userId'', JStr ''42''),
           (''roles'', JStr ''customer,admin''),
           (''scopes'', JStr ''read,write''),
           (''userIdHeader'', JStr ''42''),
           (''authenticated'', JStr ''true''),
           (''timestamp'', JStr ''2025-01-01T00:00:00.000Z'')]
   \<and> isString (principalId (fst (handler localConfig (exampleEnv 1000 (Inr None) (Inr exampleClaims))
        initial_state exampleEvent)))
   \<and> list_all (\<lambda>kv. isString (snd kv))
        [(''userId'', JStr ''42''),
         (''roles'', JStr ''customer,admin''),
         (''scopes'', JStr ''read,write''),
         (''userIdHeader'', JStr ''42''),
         (''authenticated'', JStr ''true''),
         (''timestamp'', JStr ''2025-01-01T00:00:00.000Z'')]
   \<and> Version (policyDocument (fst (handler localConfig (exampleEnv 1000 (Inr None) (Inr exampleClaims))
        initial_state exampleEvent))) = ''2012-10-17''"
proof -
  let ?e = "exampleEnv 1000 (Inr None) (Inr exampleClaims)"
  let ?ctx = "[(''userId'', JStr ''42''),
           (''roles'', JStr ''customer,admin''),
           (''scopes'', JStr ''read,write''),
           (''userIdHeader'', JStr ''42''),
           (''authenticated'', JStr ''true''),
           (''timestamp'', JStr ''2025-01-01T00:00:00.000Z'')]"
  have h: "fst (handler localConfig ?e initial_state exampleEvent) =
     \<lparr>principalId = JStr ''42'',
       policyDocument = \<lparr>Version = ''2012-10-17'',
         Statement = [\<lparr>Action = ''execute-api:Invoke'', Effect = Allow,
                       Resource = ''arn:aws:execute-api:eu-west-1:1:api/prod/GET/orders''\<rparr>]\<rparr>,
       context' = Some ?ctx\<rparr>"
    using handler_token [OF extract_example _
        validateToken_verified [OF local_key example_verified [of 1000 "Inr None" exampleClaims], of initial_state]]
    by (simp add: validateClaims_def js_prop_def exampleClaims_def generateAllowPolicy_def
        generatePolicy_def example_arn example_stamp)
  then have ctx: "context' (fst (handler localConfig ?e initial_state exampleEvent)) = Some ?ctx"
    and pid: "isString (principalId (fst (handler localConfig ?e initial_state exampleEvent)))"
    by simp_all
  note inst = decision_shape [where cfg = localConfig and e = ?e and s = initial_state and ev = exampleEvent]
  have "list_all (\<lambda>kv. isString (snd kv)) ?ctx"
    using inst [THEN conjunct2, THEN conjunct2, rule_format, OF ctx, THEN conjunct2, rule_format, OF pid] .
  moreover have "Version (policyDocument (fst (handler localConfig ?e initial_state exampleEvent)))
      = ''2012-10-17''"
    using inst [THEN conjunct1] .
  ultimately show ?thesis
    using ctx pid by simp
qed

text \<open>
  The claim as stated fails: the action of the decision for a request without a
  credential is not \<open>invoke\<close>, and for a token whose subject is the number 42 the context
  holds the number, not a string.
\<close>

theorem decision_shape_counterexample:
  "map Action (Statement (policyDocument (fst (handler exampleConfig
       (exampleEnv 1000 (Inr None) (Inr exampleClaims)) initial_state
       \<lparr>authorizationToken = None, methodArn = ''arn''\<rparr>)))) \<noteq> [''invoke'']
   \<and> context' (fst (handler localConfig (exampleEnv 1000 (Inr None) (Inr looseClaims)) initial_state
        exampleEvent)) =
       Some [(''userId'', JNum 42),
             (''roles'', JStr ''7,,admin''),
             (''scopes'', JStr ''read''),
             (''userIdHeader'', JNum 42),
             (''authenticated'', JStr ''true''),
             (''timestamp'', JStr ''2025-01-01T00:00:00.000Z'')]
   \<and> \<not> isString (JNum 42)"
proof -
  have a: "handler exampleConfig (exampleEnv 1000 (Inr None) (Inr exampleClaims)) initial_state
       \<lparr>authorizationToken = None, methodArn = ''arn''\<rparr> = (getDenyAllPolicy, initial_state)"
    by (simp add: handler_no_token extractToken_def)
  have b: "fst (handler localConfig (exampleEnv 1000 (Inr None) (Inr looseClaims)) initial_state
        exampleEvent) =
     \<lparr>principalId = JNum 42,
       policyDocument = \<lparr>Version = ''2012-10-17'',
         Statement = [\<lparr>Action = ''execute-api:Invoke'', Effect = Allow,
                       Resource = ''arn:aws:execute-api:eu-west-1:1:api/prod/GET/orders''\<rparr>]\<rparr>,
       context' = Some [(''userId'', JNum 42),
             (''roles'', JStr ''7,,admin''),
             (''scopes'', JStr ''read''),
             (''userIdHeader'', JNum 42),
             (''authenticated'', JStr ''true''),
             (''timestamp'', JStr ''2025-01-01T00:00:00.000Z'')]\<rparr>"
    using handler_token [OF extract_example _
        validateToken_verified [OF local_key example_verified [of 1000 "Inr None" looseClaims], of initial_state]]
    by (simp add: validateClaims_def js_prop_def looseClaims_def generateAllowPolicy_def
        generatePolicy_def example_arn example_stamp dec_int_def dec_nat.simps digit_char_def)
  show ?thesis
    by (simp add: a b getDenyAllPolicy_def denyAllPolicy_def)
qed

section \<open>C9: the handler never checks the origin\<close>

text \<open>
  Claim C9. The handler validates the token with no origin IP. For every event: without
  a token it denies all; with a token, its decision is the one determined by
  \<open>validateToken\<close> called with no origin, whose result is never \<open>IP address mismatch\<close>;
  and a token that carries a bound IP and passes the other checks is valid there,
  whatever the origin of the caller.
\<close>

theorem handler_skips_origin_binding:
  "(extractToken (authorizationToken ev) = None \<or> extractToken (authorizationToken ev) = Some []
      \<longrightarrow> handler cfg e s ev = (getDenyAllPolicy, s))
   \<and> (\<forall>tok. extractToken (authorizationToken ev) = Some tok \<and> tok \<noteq> [] \<longrightarrow>
        error (fst (validateToken cfg e s tok None)) \<noteq> Some ''IP address mismatch''
      \<and> handler cfg e s ev =
          (if \<not> isValid (fst (validateToken cfg e s tok None))
           then generateDenyPolicy (JStr ''anonymous'') (methodArn ev)
           else (case generateAllowPolicy
                        (unwrap (userId (fst (validateToken cfg e s tok None))))
                        (methodArn ev)
                        (unwrap (roles (fst (validateToken cfg e s tok None))))
                        (unwrap (scopes (fst (validateToken cfg e s tok None))))
                        (date_toISOString e) of
                   Inl err \<Rightarrow> getDenyAllPolicy
                 | Inr d \<Rightarrow> d),
           snd (validateToken cfg e s tok None))
      \<and> (\<forall>secret s1 decoded.
            getJwtSecret cfg e s = (Inr secret, s1)
            \<and> jwt_verify e tok secret (verifyOptions cfg) = Inr decoded
            \<and> truthy (js_prop decoded ''sub'')
            \<and> \<not> absentNotArrayOrEmpty (js_prop decoded ''roles'')
            \<and> \<not> absentNotArrayOrEmpty (js_prop decoded ''scopes'')
            \<and> truthy (js_prop decoded ''ip'')
            \<longrightarrow> isValid (fst (validateToken cfg e s tok None))))"
proof (intro conjI allI impI)
  assume "extractToken (authorizationToken ev) = None \<or> extractToken (authorizationToken ev) = Some []"
  then show "handler cfg e s ev = (getDenyAllPolicy, s)"
    by (rule handler_no_token)
next
  fix tok
  show "error (fst (validateToken cfg e s tok None)) \<noteq> Some ''IP address mismatch''"
    by (rule validateToken_None_error)
next
  fix tok
  assume x: "extractToken (authorizationToken ev) = Some tok \<and> tok \<noteq> []"
  obtain r s1 where v: "validateToken cfg e s tok None = (r, s1)"
    by (cases "validateToken cfg e s tok None")
  from x have x1: "extractToken (authorizationToken ev) = Some tok" and x2: "tok \<noteq> []"
    by simp_all
  show "handler cfg e s ev =
          (if \<not> isValid (fst (validateToken cfg e s tok None))
           then generateDenyPolicy (JStr ''anonymous'') (methodArn ev)
           else (case generateAllowPolicy
                        (unwrap (userId (fst (validateToken cfg e s tok None))))
                        (methodArn ev)
                        (unwrap (roles (fst (validateToken cfg e s tok None))))
                        (unwrap (scopes (fst (validateToken cfg e s tok None))))
                        (date_toISOString e) of
                   Inl err \<Rightarrow> getDenyAllPolicy
                 | Inr d \<Rightarrow> d),
           snd (validateToken cfg e s tok None))"
    using handler_token [OF x1 x2 v] v by simp
next
  fix tok secret s1 decoded
  assume a: "getJwtSecret cfg e s = (Inr secret, s1)
            \<and> jwt_verify e tok secret (verifyOptions cfg) = Inr decoded
            \<and> truthy (js_prop decoded ''sub'')
            \<and> \<not> absentNotArrayOrEmpty (js_prop decoded ''roles'')
            \<and> \<not> absentNotArrayOrEmpty (js_prop decoded ''scopes'')
            \<and> truthy (js_prop decoded ''ip'')"
  then obtain rs ss where "js_prop decoded ''roles'' = JArr rs" "rs \<noteq> []"
    "js_prop decoded ''scopes'' = JArr ss" "ss \<noteq> []"
    by (auto simp: good_array_iff)
  with a have "isValid (validateClaims decoded None)"
    by (simp add: validateClaims_valid)
  with a show "isValid (fst (validateToken cfg e s tok None))"
    by (simp add: validateToken_verified)
qed

text \<open>The statement at an example input.\<close>

theorem handler_skips_origin_binding_witness:
  "error (fst (validateToken localConfig (exampleEnv 1000 (Inr None) (Inr boundClaims)) initial_state
      ''abc.def.ghi'' None)) \<noteq> Some ''IP address mismatch''
   \<and> isValid (fst (validateToken localConfig (exampleEnv 1000 (Inr None) (Inr boundClaims))
        initial_state ''abc.def.ghi'' None))
   \<and> handler localConfig (exampleEnv 1000 (Inr None) (Inr boundClaims)) initial_state exampleEvent =
     (\<lparr>principalId = JStr ''42'',
       policyDocument = \<lparr>Version = ''2012-10-17'',
         Statement = [\<lparr>Action = ''execute-api:Invoke'', Effect = Allow,
                       Resource = ''arn:aws:execute-api:eu-west-1:1:api/prod/GET/orders''\<rparr>]\<rparr>,
       context' = Some [(''userId'', JStr ''42''),
                        (''roles'', JStr ''customer,admin''),
                        (''scopes'', JStr ''read,write''),
                        (''userIdHeader'', JStr ''42''),
                        (''authenticated'', JStr ''true''),
                        (''timestamp'', JStr ''2025-01-01T00:00:00.000Z'')]\<rparr>, initial_state)
   \<and> handler exampleConfig (exampleEnv 1000 (Inr None) (Inr boundClaims)) initial_state
        \<lparr>authorizationToken = None, methodArn = ''arn''\<rparr> = (getDenyAllPolicy, initial_state)"
proof -
  let ?e = "exampleEnv 1000 (Inr None) (Inr boundClaims)"
  note inst = handler_skips_origin_binding [where cfg = localConfig and e = ?e and s = initial_state and ev = exampleEvent]
  have x: "extractToken (authorizationToken exampleEvent) = Some ''abc.def.ghi'' \<and> ''abc.def.ghi'' \<noteq> []"
    by (simp add: extract_example)
  note tok = inst [THEN conjunct2, rule_format, OF x]
  have claims: "getJwtSecret localConfig ?e initial_state = (Inr ''local-key'', initial_state)
      \<and> jwt_verify ?e ''abc.def.ghi'' ''local-key'' (verifyOptions localConfig) = Inr boundClaims
      \<and> truthy (js_prop boundClaims ''sub'')
      \<and> \<not> absentNotArrayOrEmpty (js_prop boundClaims ''roles'')
      \<and> \<not> absentNotArrayOrEmpty (js_prop boundClaims ''scopes'')
      \<and> truthy (js_prop boundClaims ''ip'')"
  proof (intro conjI)
    show "getJwtSecret localConfig ?e initial_state = (Inr ''local-key'', initial_state)"
      by (rule local_key)
    show "jwt_verify ?e ''abc.def.ghi'' ''local-key'' (verifyOptions localConfig) = Inr boundClaims"
      by (rule example_verified)
  qed (simp_all add: boundClaims_def exampleClaims_def js_prop_def absentNotArrayOrEmpty_def)
  have a: "error (fst (validateToken localConfig ?e initial_state ''abc.def.ghi'' None))
      \<noteq> Some ''IP address mismatch''"
    using tok by simp
  have b: "isValid (fst (validateToken localConfig ?e initial_state ''abc.def.ghi'' None))"
    using tok [THEN conjunct2, THEN conjunct2, rule_format, OF claims] .
  have v: "validateToken localConfig ?e initial_state ''abc.def.ghi'' None =
       (\<lparr>isValid = True, userId = Some (JStr ''42''),
         roles = Some (JArr [JStr ''customer'', JStr ''admin'']),
         scopes = Some (JArr [JStr ''read'', JStr ''write'']), error = None\<rparr>, initial_state)"
    by (simp add: validateToken_verified [OF local_key example_verified] validateClaims_def
        boundClaims_def exampleClaims_def js_prop_def)
  have c: "handler localConfig ?e initial_state exampleEvent =
     (\<lparr>principalId = JStr ''42'',
       policyDocument = \<lparr>Version = ''2012-10-17'',
         Statement = [\<lparr>Action = ''execute-api:Invoke'', Effect = Allow,
                       Resource = ''arn:aws:execute-api:eu-west-1:1:api/prod/GET/orders''\<rparr>]\<rparr>,
       context' = Some [(''userId'', JStr ''42''),
                        (''roles'', JStr ''customer,admin''),
                        (''scopes'', JStr ''read,write''),
                        (''userIdHeader'', JStr ''42''),
                        (''authenticated'', JStr ''true''),
                        (''timestamp'', JStr ''2025-01-01T00:00:00.000Z'')]\<rparr>, initial_state)"
    using tok [THEN conjunct2, THEN conjunct1]
    by (simp add: v generateAllowPolicy_def generatePolicy_def example_arn example_stamp)
  have d: "handler exampleConfig ?e initial_state
        \<lparr>authorizationToken = None, methodArn = ''arn''\<rparr> = (getDenyAllPolicy, initial_state)"
    using handler_skips_origin_binding [where cfg = exampleConfig and e = ?e and s = initial_state
        and ev = "\<lparr>authorizationToken = None, methodArn = ''arn''\<rparr>", THEN conjunct1]
    by (simp add: extractToken_def)
  show ?thesis
    using a b c d by simp
qed

section \<open>C10: the elements of roles and scopes are not checked\<close>

text \<open>
  Claim C10. A verified token with a subject, whose roles and scopes are non-empty arrays
  one of which holds an element that is not a string, is valid when no IP mismatch
  stands against it: only the arrays are checked, not their elements.
\<close>

theorem non_string_elements_accepted:
  assumes key: "getJwtSecret cfg e s = (Inr secret, s1)"
    and ver: "jwt_verify e token secret (verifyOptions cfg) = Inr decoded"
    and sub: "truthy (js_prop decoded ''sub'')"
    and rs: "js_prop decoded ''roles'' = JArr rs" "rs \<noteq> []"
    and ss: "js_prop decoded ''scopes'' = JArr ss" "ss \<noteq> []"
    and r: "r \<in> set rs \<union> set ss" "\<forall>str. r \<noteq> JStr str"
    and ip: "\<not> (truthy (js_prop decoded ''ip'') \<and> truthy (opt_to_js sourceIp)
                \<and> js_prop decoded ''ip'' \<noteq> opt_to_js sourceIp)"
  shows "validateToken cfg e s token sourceIp =
           (\<lparr>isValid = True, userId = Some (js_prop decoded ''sub''), roles = Some (JArr rs),
             scopes = Some (JArr ss), error = None\<rparr>, s1)"
proof -
  have "validateClaims decoded sourceIp =
      \<lparr>isValid = True, userId = Some (js_prop decoded ''sub''), roles = Some (JArr rs),
       scopes = Some (JArr ss), error = None\<rparr>"
    using sub rs ss ip by (intro validateClaims_valid) auto
  then show ?thesis
    using key ver by (simp add: validateToken_verified)
qed

text \<open>The statement at an example input.\<close>

theorem non_string_elements_accepted_witness:
  "validateToken localConfig (exampleEnv 1000 (Inr None) (Inr looseClaims)) initial_state
      ''abc.def.ghi'' None =
     (\<lparr>isValid = True, userId = Some (JNum 42),
       roles = Some (JArr [JNum 7, JNull, JStr ''admin'']),
       scopes = Some (JArr [JStr ''read'']), error = None\<rparr>, initial_state)"
proof -
  have v: "jwt_verify (exampleEnv 1000 (Inr None) (Inr looseClaims)) ''abc.def.ghi'' ''local-key''
     (verifyOptions localConfig) = Inr looseClaims"
    by (simp add: exampleEnv_def)
  show ?thesis
    using non_string_elements_accepted [OF local_key v, where s = initial_state and sourceIp = None and r = "JNum 7"
        and rs = "[JNum 7, JNull, JStr ''admin'']" and ss = "[JStr ''read'']"]
    by (simp add: looseClaims_def js_prop_def)
qed

end
